theory Spec2Isabelle
  imports Complex_Main "HOL-Library.Char_ord" "HOL-Library.List_Lexorder"
begin

section \<open>Scalars, vectors and matrices\<close>

text \<open>
  The source computes in \<^verbatim>\<open>float\<close> and \<^verbatim>\<open>double\<close>. The embedding uses exact reals:
  rounding is not modelled, and the concrete inputs of the distance computations below
  are chosen so that the floating-point computation is exact as well (small integers).
  The square root in \<open>vnorm\<close> has no code equation; at the concrete inputs it is taken
  of 0 and 1 only, which the simplifier evaluates.
  Member names lose their trailing underscore (\<^verbatim>\<open>static_links_\<close> is \<open>static_links\<close>).
\<close>

type_synonym vec3 = "real \<times> real \<times> real"

type_synonym coord = "int \<times> int \<times> int"

text \<open>A 4x4 matrix (\<^verbatim>\<open>Eigen::Affine3d\<close>, \<^verbatim>\<open>openvdb::Mat4d\<close>) by its entries.\<close>

type_synonym mat4 = "nat \<Rightarrow> nat \<Rightarrow> real"

definition Identity :: mat4 where
  "Identity = (\<lambda>i j. if i = j then 1 else 0)"

definition mat_mul :: "mat4 \<Rightarrow> mat4 \<Rightarrow> mat4" where
  "mat_mul A B = (\<lambda>i j. A i 0 * B 0 j + A i 1 * B 1 j + A i 2 * B 2 j + A i 3 * B 3 j)"

definition transpose4 :: "mat4 \<Rightarrow> mat4" where
  "transpose4 A = (\<lambda>i j. A j i)"

text \<open>\<^verbatim>\<open>tf * p\<close> for an \<^verbatim>\<open>openvdb::Mat4d\<close> and a \<^verbatim>\<open>Vec3d\<close>: the point transformed.\<close>

definition mat_vec :: "mat4 \<Rightarrow> vec3 \<Rightarrow> vec3" where
  "mat_vec m p = (case p of (x, y, z) \<Rightarrow>
     (x * m 0 0 + y * m 0 1 + z * m 0 2 + m 0 3,
      x * m 1 0 + y * m 1 1 + z * m 1 2 + m 1 3,
      x * m 2 0 + y * m 2 1 + z * m 2 2 + m 2 3))"

definition translation :: "mat4 \<Rightarrow> vec3" where
  "translation m = (m 0 3, m 1 3, m 2 3)"

definition Affine3dToMat4d :: "mat4 \<Rightarrow> mat4" where
  "Affine3dToMat4d input = (\<lambda>i j. input i j)"

definition Affine3dToMat4dAffine :: "mat4 \<Rightarrow> mat4" where
  "Affine3dToMat4dAffine input = (\<lambda>j i. input i j)"

definition vzero :: vec3 where
  "vzero = (0, 0, 0)"

definition vadd :: "vec3 \<Rightarrow> vec3 \<Rightarrow> vec3" where
  "vadd a b = (case a of (x, y, z) \<Rightarrow> case b of (u, v, w) \<Rightarrow> (x + u, y + v, z + w))"

definition vscale :: "vec3 \<Rightarrow> real \<Rightarrow> vec3" where
  "vscale a k = (case a of (x, y, z) \<Rightarrow> (x * k, y * k, z * k))"

definition vsum :: "vec3 \<Rightarrow> real" where
  "vsum a = (case a of (x, y, z) \<Rightarrow> x + y + z)"

definition vnorm :: "vec3 \<Rightarrow> real" where
  "vnorm a = (case a of (x, y, z) \<Rightarrow> sqrt (x * x + y * y + z * z))"

text \<open>
  \<^verbatim>\<open>openvdb::Vec3::normalize(eps = 1e-7)\<close>: a vector whose length is within \<open>eps\<close> of
  zero is left as it is.
\<close>

definition vdb_normalize :: "vec3 \<Rightarrow> vec3" where
  "vdb_normalize a = (let d = vnorm a in
     if \<bar>d - 0\<bar> \<le> 1 / 10 ^ 7 then a else vscale a (1 / d))"

text \<open>
  \<^verbatim>\<open>Eigen::Vector3d::normalize()\<close>: divides by the norm when that is positive (Eigen 3.3
  on; earlier versions divide unguarded, and a zero vector becomes NaN).
\<close>

definition eigen_normalize :: "vec3 \<Rightarrow> vec3" where
  "eigen_normalize a = (let n = vnorm a in
     if 0 < n then (case a of (x, y, z) \<Rightarrow> (x / n, y / n, z / n)) else a)"

section \<open>The volumetric field\<close>

text \<open>
  An \<^verbatim>\<open>openvdb::FloatGrid\<close> is read only through \<^verbatim>\<open>getValue(coord)\<close>; it is the function
  from voxel coordinates to the stored value (the grid's background where nothing is
  stored).
\<close>

type_synonym FloatGrid = "coord \<Rightarrow> real"

datatype Shape =
    BOX vec3
  | CONE real real
  | CYLINDER real real
  | OCTREE
  | MESH "real list" "nat list"
  | PLANE
  | SPHERE real
  | UNKNOWN_SHAPE

text \<open>
  The OpenVDB library, as the operations the source calls. \<open>meshToVolume\<close> stands for
  the tessellation of a box, cone, cylinder or mesh at a pose followed by
  \<^verbatim>\<open>openvdb::tools::meshToVolume\<close> on a transform of the given voxel size and bands.
\<close>

record openvdb =
  meshToVolume :: "Shape \<Rightarrow> mat4 \<Rightarrow> real \<Rightarrow> real \<Rightarrow> real \<Rightarrow> FloatGrid"
  createLevelSetSphere :: "real \<Rightarrow> vec3 \<Rightarrow> real \<Rightarrow> real \<Rightarrow> FloatGrid"
  csgUnion :: "FloatGrid \<Rightarrow> FloatGrid \<Rightarrow> FloatGrid"
  tools_fillWithSpheres ::
    "FloatGrid \<Rightarrow> nat \<Rightarrow> bool \<Rightarrow> real \<Rightarrow> real \<Rightarrow> real \<Rightarrow> nat \<Rightarrow> (real \<times> real \<times> real \<times> real) list"

text \<open>
  What the source does that C++ leaves undefined, or that does not return, is an error
  value of the model.
\<close>

datatype error =
    NullGridDereference
  | NullGroupDereference
  | NullFieldDereference
  | EraseAtEnd
  | EndIteratorDereference
  | IndexOutOfRange
  | OutOfFuel

record OpenVDBDistanceField =
  f_voxel_size :: real
  f_background :: real
  grid :: "FloatGrid option"
  accessor :: "FloatGrid option"

text \<open>The constructor \<^verbatim>\<open>OpenVDBDistanceField(voxel_size, background)\<close>: no grid yet.\<close>

definition new_field :: "real \<Rightarrow> real \<Rightarrow> OpenVDBDistanceField" where
  "new_field v bg = \<lparr>f_voxel_size = v, f_background = bg, grid = None, accessor = None\<rparr>"

text \<open>The \<^verbatim>\<open>switch\<close> of \<^verbatim>\<open>addShapeToField\<close>: \<open>None\<close> where the source logs an error and returns.\<close>

fun shape_to_grid ::
  "openvdb \<Rightarrow> real \<Rightarrow> Shape \<Rightarrow> mat4 \<Rightarrow> real \<Rightarrow> real \<Rightarrow> FloatGrid option" where
  "shape_to_grid vdb v (BOX s) pose ex inb = Some (meshToVolume vdb (BOX s) pose v ex inb)"
| "shape_to_grid vdb v (CONE r l) pose ex inb = Some (meshToVolume vdb (CONE r l) pose v ex inb)"
| "shape_to_grid vdb v (CYLINDER r l) pose ex inb =
     Some (meshToVolume vdb (CYLINDER r l) pose v ex inb)"
| "shape_to_grid vdb v OCTREE pose ex inb = None"
| "shape_to_grid vdb v (MESH vs ts) pose ex inb = Some (meshToVolume vdb (MESH vs ts) pose v ex inb)"
| "shape_to_grid vdb v PLANE pose ex inb = None"
| "shape_to_grid vdb v (SPHERE r) pose ex inb =
     Some (createLevelSetSphere vdb r (translation pose) v ex)"
| "shape_to_grid vdb v UNKNOWN_SHAPE pose ex inb = None"

definition addShapeToField ::
  "openvdb \<Rightarrow> OpenVDBDistanceField \<Rightarrow> Shape \<Rightarrow> mat4 \<Rightarrow> real \<Rightarrow> real \<Rightarrow> OpenVDBDistanceField" where
  "addShapeToField vdb f shape pose ex inb =
     (case shape_to_grid vdb (f_voxel_size f) shape pose ex inb of
        None \<Rightarrow> f
      | Some g \<Rightarrow>
          (let g' = (case grid f of None \<Rightarrow> g | Some g0 \<Rightarrow> csgUnion vdb g0 g)
           in f\<lparr>grid := Some g', accessor := Some g'\<rparr>))"

text \<open>The shape kinds for which \<^verbatim>\<open>addShapeToField\<close> logs an error and inserts nothing.\<close>

definition unsupported :: "Shape \<Rightarrow> bool" where
  "unsupported s = (s = OCTREE \<or> s = PLANE \<or> s = UNKNOWN_SHAPE)"

text \<open>
  \<^verbatim>\<open>getDistance(coord, thread_safe)\<close>. With no grid, the thread-safe branch reads through
  the null \<^verbatim>\<open>grid_\<close>; the other branch logs an error and returns 0.
\<close>

definition getDistance :: "OpenVDBDistanceField \<Rightarrow> coord \<Rightarrow> bool \<Rightarrow> error + real" where
  "getDistance f c thread_safe =
     (if thread_safe then
        (case grid f of None \<Rightarrow> Inl NullGridDereference | Some g \<Rightarrow> Inr (g c))
      else
        (case accessor f of Some a \<Rightarrow> Inr (a c) | None \<Rightarrow> Inr 0))"

text \<open>
  \<^verbatim>\<open>fillWithSpheres\<close>: the spheres OpenVDB finds are appended to \<open>spheres\<close>, which is
  passed by reference and not cleared.
\<close>

type_synonym SphereModel = "(vec3 \<times> real) list"

definition fillWithSpheres ::
  "openvdb \<Rightarrow> OpenVDBDistanceField \<Rightarrow> SphereModel \<Rightarrow> nat \<Rightarrow> bool \<Rightarrow> real \<Rightarrow> real \<Rightarrow> real \<Rightarrow> nat
     \<Rightarrow> error + SphereModel" where
  "fillWithSpheres vdb f spheres maxSphereCount overlapping minRadius maxRadius isovalue instanceCount =
     (case grid f of
        None \<Rightarrow> Inl NullGridDereference
      | Some g \<Rightarrow>
          Inr (spheres @
               map (\<lambda>s. case s of (x, y, z, r) \<Rightarrow> ((x, y, z), r))
                 (tools_fillWithSpheres vdb g maxSphereCount overlapping minRadius maxRadius
                    isovalue instanceCount)))"

section \<open>The allowed collision matrix\<close>

datatype AllowedCollisionType = NEVER | ALWAYS | CONDITIONAL

text \<open>
  MoveIt's \<^verbatim>\<open>AllowedCollisionMatrix\<close>: the entries by ordered pair of names.
  \<^verbatim>\<open>setEntry\<close> stores an entry under both orders of the pair.
\<close>

type_synonym AllowedCollisionMatrix = "string \<times> string \<Rightarrow> AllowedCollisionType option"

definition getAllowedCollision ::
  "AllowedCollisionMatrix \<Rightarrow> string \<Rightarrow> string \<Rightarrow> AllowedCollisionType option" where
  "getAllowedCollision mx l1 l2 = mx (l1, l2)"

definition setEntry :: "AllowedCollisionMatrix \<Rightarrow> string \<Rightarrow> string \<Rightarrow> bool \<Rightarrow> AllowedCollisionMatrix" where
  "setEntry mx n1 n2 allowed =
     (let v = (if allowed then ALWAYS else NEVER) in mx((n1, n2) \<mapsto> v, (n2, n1) \<mapsto> v))"

definition acm_symmetric :: "AllowedCollisionMatrix \<Rightarrow> bool" where
  "acm_symmetric mx = (\<forall>a b. getAllowedCollision mx a b = getAllowedCollision mx b a)"

definition isCollisionAllowed :: "string \<Rightarrow> string \<Rightarrow> AllowedCollisionMatrix option \<Rightarrow> bool" where
  "isCollisionAllowed l1 l2 mx =
     (case mx of
        Some a \<Rightarrow>
          (case getAllowedCollision a l1 l2 of
             Some t \<Rightarrow> t = ALWAYS
           | None \<Rightarrow> False)
      | None \<Rightarrow> False)"

section \<open>The kinematic model and the engine\<close>

text \<open>
  A link is identified by its name, which is unique in a model; the source compares
  \<^verbatim>\<open>const LinkModel*\<close> pointers.
\<close>

type_synonym link = string

text \<open>
  MoveIt's \<^verbatim>\<open>RobotModel\<close>, as the queries the source makes. \<open>getAssociatedFixedTransforms\<close>
  lists a link's map of fixed attachments in iteration order. \<open>getGeometry\<close> pairs
  \<^verbatim>\<open>getShapes()\<close> with \<^verbatim>\<open>getCollisionOriginTransforms()\<close>, which a link keeps at the same
  length. A joint model group is its name and its \<^verbatim>\<open>getLinkModels()\<close>.
\<close>

record RobotModel =
  getRootLink :: link
  getLinkModelsWithCollisionGeometry :: "link list"
  getAssociatedFixedTransforms :: "link \<Rightarrow> (link \<times> mat4) list"
  getJointModelGroups :: "(string \<times> link list) list"
  getGeometry :: "link \<Rightarrow> (Shape \<times> mat4) list"
  getDisabledCollisionPairs :: "(string \<times> string) list"

datatype LinkType = Static | Active | Dynamic

text \<open>
  \<^verbatim>\<open>DistanceQueryData\<close>: the fields \<^verbatim>\<open>gradient\<close> and \<^verbatim>\<open>empty\<close> are \<open>q_gradient\<close> and
  \<open>q_empty\<close> here.
\<close>

record DistanceQueryData =
  parent_name :: string
  child_name :: "string list"
  child_index :: "nat list"
  child_type :: "LinkType list"
  spheres :: SphereModel
  q_gradient :: bool
  q_empty :: bool

text \<open>
  The engine. The three vectors of fields hold shared pointers; \<open>active_sdf\<close> is resized
  before it is filled, so its entries can be null (\<open>None\<close>).
\<close>

record CollisionRobotOpenVDB =
  voxel_size :: real
  background :: real
  exBandWidth :: real
  inBandWidth :: real
  links :: "link list"
  static_links :: "link list"
  static_sdf :: "OpenVDBDistanceField list"
  active_links :: "link list"
  active_sdf :: "OpenVDBDistanceField option list"
  active_spheres :: "SphereModel list"
  dynamic_links :: "link list"
  dynamic_sdf :: "OpenVDBDistanceField list"
  dist_query :: "DistanceQueryData list"
  acm :: "AllowedCollisionMatrix option"

subsection \<open>Building the fields\<close>

text \<open>Inserting a list of shapes, each at \<open>pose * shape_pose\<close>: the loop of \<^verbatim>\<open>addLinkToField\<close>.\<close>

fun addShapes ::
  "openvdb \<Rightarrow> OpenVDBDistanceField \<Rightarrow> (Shape \<times> mat4) list \<Rightarrow> mat4 \<Rightarrow> real \<Rightarrow> real
     \<Rightarrow> OpenVDBDistanceField" where
  "addShapes vdb f [] pose ex inb = f"
| "addShapes vdb f ((shape, shape_pose) # rest) pose ex inb =
     addShapes vdb (addShapeToField vdb f shape (mat_mul pose shape_pose) ex inb) rest pose ex inb"

definition addLinkToField ::
  "openvdb \<Rightarrow> RobotModel \<Rightarrow> OpenVDBDistanceField \<Rightarrow> link \<Rightarrow> mat4 \<Rightarrow> real \<Rightarrow> real
     \<Rightarrow> OpenVDBDistanceField" where
  "addLinkToField vdb m f l pose ex inb = addShapes vdb f (getGeometry m l) pose ex inb"

text \<open>
  A fresh field at the nominal voxel size and bands with one link inserted at \<open>pose\<close>,
  and its registration as a static part: the body of the two \<^verbatim>\<open>if\<close> blocks of
  \<^verbatim>\<open>createStaticSDFs\<close> and \<^verbatim>\<open>addAssociatedFixedTransforms\<close>.
\<close>

definition nominal_field ::
  "openvdb \<Rightarrow> RobotModel \<Rightarrow> CollisionRobotOpenVDB \<Rightarrow> link \<Rightarrow> mat4 \<Rightarrow> OpenVDBDistanceField" where
  "nominal_field vdb m c l pose =
     addLinkToField vdb m (new_field (voxel_size c) (background c)) l pose
       (exBandWidth c) (inBandWidth c)"

definition push_static ::
  "openvdb \<Rightarrow> RobotModel \<Rightarrow> CollisionRobotOpenVDB \<Rightarrow> link \<Rightarrow> mat4 \<Rightarrow> CollisionRobotOpenVDB" where
  "push_static vdb m c l pose =
     c\<lparr>static_links := static_links c @ [l],
       static_sdf := static_sdf c @ [nominal_field vdb m c l pose]\<rparr>"

text \<open>
  \<^verbatim>\<open>addAssociatedFixedTransforms\<close>: the \<^verbatim>\<open>for\<close> loop over the attachments of a link, with the
  recursive call inside. The fuel bounds the depth of the recursion; \<open>links_so_far\<close> and
  the engine are threaded through.
\<close>

fun fixed_loop ::
  "nat \<Rightarrow> openvdb \<Rightarrow> RobotModel \<Rightarrow> (link \<times> mat4) list \<Rightarrow> link list \<times> CollisionRobotOpenVDB
     \<Rightarrow> error + (link list \<times> CollisionRobotOpenVDB)" where
  "fixed_loop fuel vdb m [] s = Inr s"
| "fixed_loop fuel vdb m ((l, t) # rest) (links_so_far, c) =
     (if l \<notin> set links_so_far then
        (case fuel of
           0 \<Rightarrow> Inl OutOfFuel
         | Suc n \<Rightarrow>
             (case fixed_loop n vdb m (getAssociatedFixedTransforms m l)
                     (links_so_far @ [l],
                      if l \<in> set (links c) then push_static vdb m c l t else c) of
                Inl e \<Rightarrow> Inl e
              | Inr s' \<Rightarrow> fixed_loop (Suc n) vdb m rest s'))
      else fixed_loop fuel vdb m rest (links_so_far, c))"

definition addAssociatedFixedTransforms ::
  "nat \<Rightarrow> openvdb \<Rightarrow> RobotModel \<Rightarrow> link \<Rightarrow> link list \<times> CollisionRobotOpenVDB
     \<Rightarrow> error + (link list \<times> CollisionRobotOpenVDB)" where
  "addAssociatedFixedTransforms fuel vdb m l s =
     fixed_loop fuel vdb m (getAssociatedFixedTransforms m l) s"

definition createStaticSDFs ::
  "nat \<Rightarrow> openvdb \<Rightarrow> RobotModel \<Rightarrow> CollisionRobotOpenVDB \<Rightarrow> error + CollisionRobotOpenVDB" where
  "createStaticSDFs fuel vdb m c =
     (let root_link = getRootLink m;
          c' = (if root_link \<in> set (links c) then push_static vdb m c root_link Identity else c)
      in case addAssociatedFixedTransforms fuel vdb m root_link ([], c') of
           Inl e \<Rightarrow> Inl e
         | Inr (models, c'') \<Rightarrow> Inr c'')"


text \<open>A counted \<^verbatim>\<open>for\<close> loop whose body can fail: the indices in order, the state threaded.\<close>

fun for_indices :: "('s \<Rightarrow> nat \<Rightarrow> error + 's) \<Rightarrow> nat list \<Rightarrow> 's \<Rightarrow> error + 's" where
  "for_indices body [] s = Inr s"
| "for_indices body (i # rest) s =
     (case body s i of Inl e \<Rightarrow> Inl e | Inr s' \<Rightarrow> for_indices body rest s')"

text \<open>\<^verbatim>\<open>std::vector::resize\<close> with the value new entries get.\<close>

definition resize :: "nat \<Rightarrow> 'a \<Rightarrow> 'a list \<Rightarrow> 'a list" where
  "resize n d xs = take n xs @ replicate (n - length xs) d"

text \<open>
  The first loop of \<^verbatim>\<open>createActiveSDFs\<close>: every link of every joint group that is not
  yet in \<open>active_links\<close> and has collision geometry is appended.
\<close>

definition collect_active_links :: "link list \<Rightarrow> (string \<times> link list) list \<Rightarrow> link list \<Rightarrow> link list" where
  "collect_active_links lks groups act =
     fold (\<lambda>g acc. fold (\<lambda>l acc'. if l \<notin> set acc' \<and> l \<in> set lks then acc' @ [l] else acc')
                      (snd g) acc)
          groups act"

definition FLT_MAX :: real where
  "FLT_MAX = 340282346638528859811704183484516925440"

text \<open>
  The retry loop \<^verbatim>\<open>for (j = 0; j < 10; ++j)\<close> of \<^verbatim>\<open>createActiveSDFs\<close>, by the number of
  attempts left: \<open>v\<close> is the voxel size of the attempt, \<open>sph\<close> is \<^verbatim>\<open>active_spheres_[i]\<close>,
  which \<open>fillWithSpheres\<close> extends, and the field of the last attempt is returned.
\<close>

fun sphere_retry ::
  "nat \<Rightarrow> openvdb \<Rightarrow> RobotModel \<Rightarrow> CollisionRobotOpenVDB \<Rightarrow> link \<Rightarrow> real
     \<Rightarrow> OpenVDBDistanceField option \<times> SphereModel
     \<Rightarrow> error + (OpenVDBDistanceField option \<times> SphereModel)" where
  "sphere_retry 0 vdb m c l v s = Inr s"
| "sphere_retry (Suc k) vdb m c l v (sdf, sph) =
     (let sdf' = addLinkToField vdb m (new_field v (background c)) l Identity
                   ((voxel_size c / v) * exBandWidth c) ((voxel_size c / v) * inBandWidth c)
      in case fillWithSpheres vdb sdf' sph 20 True 1 FLT_MAX 0 100000 of
           Inl e \<Rightarrow> Inl e
         | Inr sph' \<Rightarrow>
             if length sph' > 1 then Inr (Some sdf', sph')
             else sphere_retry k vdb m c l (v * 0.5) (Some sdf', sph'))"

definition active_step ::
  "openvdb \<Rightarrow> RobotModel \<Rightarrow> CollisionRobotOpenVDB \<Rightarrow> nat \<Rightarrow> error + CollisionRobotOpenVDB" where
  "active_step vdb m c i =
     (if i < length (active_links c) \<and> i < length (active_spheres c) \<and> i < length (active_sdf c) then
        (case sphere_retry 10 vdb m c (active_links c ! i) (voxel_size c)
                (None, active_spheres c ! i) of
           Inl e \<Rightarrow> Inl e
         | Inr (sdf, sph) \<Rightarrow>
             Inr (c\<lparr>active_spheres := (active_spheres c)[i := sph],
                    active_sdf := (active_sdf c)[i := sdf]\<rparr>))
      else Inl IndexOutOfRange)"

definition createActiveSDFs ::
  "openvdb \<Rightarrow> RobotModel \<Rightarrow> CollisionRobotOpenVDB \<Rightarrow> error + CollisionRobotOpenVDB" where
  "createActiveSDFs vdb m c =
     (let act = collect_active_links (links c) (getJointModelGroups m) (active_links c);
          c1 = c\<lparr>active_links := act,
                 active_sdf := resize (length act) None (active_sdf c),
                 active_spheres := resize (length act) [] (active_spheres c)\<rparr>
      in for_indices (active_step vdb m) [0..<length act] c1)"

text \<open>
  \<^verbatim>\<open>v.erase(std::remove(v.begin(), v.end(), x))\<close>: \<^verbatim>\<open>std::remove\<close> moves the elements other
  than \<open>x\<close> to the front and returns the end of that range; the one-iterator \<^verbatim>\<open>erase\<close>
  removes the single element there. When \<open>x\<close> does not occur that iterator is
  \<^verbatim>\<open>end()\<close>, which \<^verbatim>\<open>erase\<close> must not be given.
\<close>

definition erase_remove :: "'a list \<Rightarrow> 'a \<Rightarrow> error + 'a list" where
  "erase_remove xs x =
     (let kept = filter (\<lambda>y. y \<noteq> x) xs
      in if length kept = length xs then Inl EraseAtEnd
         else Inr (kept @ drop (Suc (length kept)) xs))"

fun erase_remove_all :: "'a list \<Rightarrow> 'a list \<Rightarrow> error + 'a list" where
  "erase_remove_all dyn [] = Inr dyn"
| "erase_remove_all dyn (x # rest) =
     (case erase_remove dyn x of Inl e \<Rightarrow> Inl e | Inr dyn' \<Rightarrow> erase_remove_all dyn' rest)"

definition createDynamicSDFs ::
  "openvdb \<Rightarrow> RobotModel \<Rightarrow> CollisionRobotOpenVDB \<Rightarrow> error + CollisionRobotOpenVDB" where
  "createDynamicSDFs vdb m c =
     (case erase_remove_all (links c) (static_links c) of
        Inl e \<Rightarrow> Inl e
      | Inr d1 \<Rightarrow>
          (case erase_remove_all d1 (active_links c) of
             Inl e \<Rightarrow> Inl e
           | Inr d2 \<Rightarrow>
               Inr (c\<lparr>dynamic_links := d2,
                      dynamic_sdf := map (\<lambda>l. nominal_field vdb m c l Identity) d2\<rparr>)))"

subsection \<open>The allow-list and the query plans\<close>

text \<open>
  \<^verbatim>\<open>createDefaultAllowedCollisionMatrix\<close>: every pair of collision links gets the entry
  NEVER, then every disabled pair of the SRDF the entry ALWAYS.
\<close>

definition createDefaultAllowedCollisionMatrix ::
  "RobotModel \<Rightarrow> CollisionRobotOpenVDB \<Rightarrow> CollisionRobotOpenVDB" where
  "createDefaultAllowedCollisionMatrix m c =
     (let collision_links = getLinkModelsWithCollisionGeometry m;
          a0 = fold (\<lambda>p a. setEntry a (fst p) (snd p) False)
                 (List.product collision_links collision_links) (\<lambda>p. None);
          a1 = fold (\<lambda>p a. setEntry a (fst p) (snd p) True) (getDisabledCollisionPairs m) a0
      in c\<lparr>acm := Some a1\<rparr>)"

text \<open>
  A default-constructed \<^verbatim>\<open>DistanceQueryData\<close>. Its declaration is in the header; the source
  only ever sets \<^verbatim>\<open>empty\<close> to false, so a fresh plan is empty.
\<close>

definition new_DistanceQueryData :: DistanceQueryData where
  "new_DistanceQueryData =
     \<lparr>parent_name = [], child_name = [], child_index = [], child_type = [], spheres = [],
      q_gradient = False, q_empty = True\<rparr>"

text \<open>The candidates of the plan of active link \<open>j\<close>: its three loops, in their order.\<close>

definition query_children :: "CollisionRobotOpenVDB \<Rightarrow> nat \<Rightarrow> (string \<times> nat \<times> LinkType) list" where
  "query_children c j =
     [(active_links c ! i, i, Active). i \<leftarrow> [0..<length (active_links c)],
        i \<noteq> j \<and> \<not> isCollisionAllowed (active_links c ! i) (active_links c ! j) (acm c)] @
     [(dynamic_links c ! i, i, Dynamic). i \<leftarrow> [0..<length (dynamic_links c)],
        \<not> isCollisionAllowed (dynamic_links c ! i) (active_links c ! j) (acm c)] @
     [(static_links c ! i, i, Static). i \<leftarrow> [0..<length (static_links c)],
        \<not> isCollisionAllowed (static_links c ! i) (active_links c ! j) (acm c)]"

definition query_step :: "CollisionRobotOpenVDB \<Rightarrow> nat \<Rightarrow> error + CollisionRobotOpenVDB" where
  "query_step c j =
     (if j < length (active_links c) \<and> j < length (active_spheres c) then
        (let data = new_DistanceQueryData\<lparr>parent_name := active_links c ! j\<rparr>
         in if length (active_spheres c ! j) = 0 then
              Inr (c\<lparr>dist_query := dist_query c @ [data]\<rparr>)
            else
              (let ch = query_children c j;
                   data' = data\<lparr>q_empty := False,
                              child_name := map fst ch,
                              child_index := map (\<lambda>x. fst (snd x)) ch,
                              child_type := map (\<lambda>x. snd (snd x)) ch\<rparr>
               in Inr (c\<lparr>dist_query := dist_query c @ [data']\<rparr>)))
      else Inl IndexOutOfRange)"

definition createDefaultDistanceQuery :: "CollisionRobotOpenVDB \<Rightarrow> error + CollisionRobotOpenVDB" where
  "createDefaultDistanceQuery c = for_indices query_step [0..<length (active_links c)] c"

text \<open>The engine as the constructor initialises it, before any of its build steps.\<close>

definition initial_engine :: "RobotModel \<Rightarrow> real \<Rightarrow> real \<Rightarrow> real \<Rightarrow> real \<Rightarrow> CollisionRobotOpenVDB" where
  "initial_engine m voxel bg ex inb =
     \<lparr>voxel_size = voxel, background = bg, exBandWidth = ex, inBandWidth = inb,
      links = getLinkModelsWithCollisionGeometry m,
      static_links = [], static_sdf = [], active_links = [], active_sdf = [],
      active_spheres = [], dynamic_links = [], dynamic_sdf = [], dist_query = [],
      acm = None\<rparr>"

text \<open>The constructor from a model and the four parameters.\<close>

definition new_CollisionRobotOpenVDB ::
  "nat \<Rightarrow> openvdb \<Rightarrow> RobotModel \<Rightarrow> real \<Rightarrow> real \<Rightarrow> real \<Rightarrow> real \<Rightarrow> error + CollisionRobotOpenVDB" where
  "new_CollisionRobotOpenVDB fuel vdb m voxel bg ex inb =
     (let c0 = initial_engine m voxel bg ex inb;
          c1 = createDefaultAllowedCollisionMatrix m c0
      in case createStaticSDFs fuel vdb m c1 of
           Inl e \<Rightarrow> Inl e
         | Inr c2 \<Rightarrow>
             (case createActiveSDFs vdb m c2 of
                Inl e \<Rightarrow> Inl e
              | Inr c3 \<Rightarrow>
                  (case createDynamicSDFs vdb m c3 of
                     Inl e \<Rightarrow> Inl e
                   | Inr c4 \<Rightarrow> createDefaultDistanceQuery c4)))"

section \<open>The self-distance query\<close>

text \<open>
  MoveIt's request and result types, with the members the source reads and writes.
  \<^verbatim>\<open>link_name[0]\<close> and \<^verbatim>\<open>link_name[1]\<close> are \<open>link_name0\<close> and \<open>link_name1\<close>; the request's
  \<^verbatim>\<open>gradient\<close> flag is \<open>r_gradient\<close>. \<^verbatim>\<open>DistanceResult::distance\<close> is a \<^verbatim>\<open>std::map\<close> from the
  parent's name to its result: an association list kept sorted by key.
\<close>

record DistanceRequest =
  group_name :: string
  r_gradient :: bool

record DistanceResultsData =
  min_distance :: real
  link_name0 :: string
  link_name1 :: string
  gradient :: vec3
  hasGradient :: bool
  hasNearestPoints :: bool

record DistanceResult =
  distance :: "(string \<times> DistanceResultsData) list"
  minimum_distance :: DistanceResultsData

type_synonym RobotState = "link \<Rightarrow> mat4"

text \<open>\<^verbatim>\<open>std::map::insert\<close>: an existing key keeps its value.\<close>

definition map_insert :: "(string \<times> 'v) list \<Rightarrow> string \<Rightarrow> 'v \<Rightarrow> (string \<times> 'v) list" where
  "map_insert mp k v = (case map_of mp k of Some u \<Rightarrow> mp | None \<Rightarrow> insort_key fst (k, v) mp)"

text \<open>\<^verbatim>\<open>std::map::operator[]\<close>: a missing key is inserted with the default value \<open>d0\<close>.\<close>

definition map_index :: "(string \<times> 'v) list \<Rightarrow> string \<Rightarrow> 'v \<Rightarrow> (string \<times> 'v) list \<times> 'v" where
  "map_index mp k d0 =
     (case map_of mp k of Some v \<Rightarrow> (mp, v) | None \<Rightarrow> (insort_key fst (k, d0) mp, d0))"

text \<open>
  \<^verbatim>\<open>SDFData\<close> pairs a grid with a transform. Its declaration is in the header, so the
  constructor is a parameter \<open>mk\<close> of the query: from the grid and, for active and
  dynamic parts, the 4x4 matrix passed, to the three operations the helper uses.
\<close>

record SDFData =
  getValue :: FloatGrid
  worldToIndexNodeCentered :: "vec3 \<Rightarrow> coord"
  applyIJT :: "vec3 \<Rightarrow> vec3"

text \<open>
  \<^verbatim>\<open>approxEqual\<close> is called on two \<^verbatim>\<open>float\<close>s, so its default tolerance is the literal
  \<^verbatim>\<open>0.00001\<close> rounded to single precision, \<open>10995116 / 2 ^ 40\<close>, a little below \<open>1 / 100000\<close>.
\<close>

definition approxEqual :: "real \<Rightarrow> real \<Rightarrow> bool" where
  "approxEqual a b = (\<bar>a - b\<bar> < 10995116 / 2 ^ 40)"

text \<open>
  \<^verbatim>\<open>openvdb::math::ISGradient<CD_2ND>::result\<close>: the central difference in index space,
  \<open>(f(i+1) - f(i-1)) * 0.5\<close> on each axis.
\<close>

definition ISGradient_CD_2ND :: "FloatGrid \<Rightarrow> coord \<Rightarrow> vec3" where
  "ISGradient_CD_2ND g ijk = (case ijk of (i, j, k) \<Rightarrow>
     ((g (i + 1, j, k) - g (i - 1, j, k)) * 0.5,
      (g (i, j + 1, k) - g (i, j - 1, k)) * 0.5,
      (g (i, j, k + 1) - g (i, j, k - 1)) * 0.5))"

text \<open>
  The inner loop of \<^verbatim>\<open>distanceSelfHelper\<close> over the parent's spheres, on the state
  \<open>(child_min, child_min_ijk, dist_found)\<close>.
\<close>

fun sphere_loop :: "real \<Rightarrow> SDFData \<Rightarrow> SphereModel \<Rightarrow> real \<times> coord \<times> bool \<Rightarrow> real \<times> coord \<times> bool" where
  "sphere_loop bg child_data [] st = st"
| "sphere_loop bg child_data ((origin, radius) # rest) (child_min, child_min_ijk, dist_found) =
     (let ijk = worldToIndexNodeCentered child_data origin;
          child_dist = getValue child_data ijk
      in if \<not> approxEqual child_dist bg then
           (if child_dist - radius < child_min
            then sphere_loop bg child_data rest (child_dist - radius, ijk, True)
            else sphere_loop bg child_data rest (child_min, child_min_ijk, dist_found))
         else sphere_loop bg child_data rest (child_min, child_min_ijk, dist_found))"

text \<open>
  The part of the outer loop's body under \<^verbatim>\<open>if (data.gradient)\<close>: the candidate's raw
  gradient at the minimizing voxel, and its contribution to the state
  \<open>(res, gradient, total_weights)\<close>.
\<close>

definition blend_gradient ::
  "real \<Rightarrow> SDFData \<Rightarrow> real \<Rightarrow> coord \<Rightarrow> DistanceResultsData \<times> vec3 \<times> real
     \<Rightarrow> DistanceResultsData \<times> vec3 \<times> real" where
  "blend_gradient bg child_data child_min child_min_ijk st =
     (case st of (res, grad, total_weights) \<Rightarrow>
        (let result = ISGradient_CD_2ND (getValue child_data) child_min_ijk
         in if vsum result \<noteq> 0 then
              (let weight = bg - child_min;
                   result' = vscale (vdb_normalize (applyIJT child_data result)) weight
               in (res\<lparr>hasGradient := True\<rparr>, vadd grad result', total_weights + weight))
            else (res, grad, total_weights)))"

definition child_step ::
  "real \<Rightarrow> DistanceQueryData \<Rightarrow> (LinkType \<Rightarrow> SDFData list) \<Rightarrow> DistanceResultsData \<times> vec3 \<times> real
     \<Rightarrow> nat \<Rightarrow> error + (DistanceResultsData \<times> vec3 \<times> real)" where
  "child_step bg data sdfs_data st i =
     (case st of (res, grad, total_weights) \<Rightarrow>
        if i < length (child_type data) \<and> i < length (child_name data) \<and>
           i < length (child_index data) \<and>
           child_index data ! i < length (sdfs_data (child_type data ! i))
        then
          (let child_data = sdfs_data (child_type data ! i) ! (child_index data ! i)
           in case sphere_loop bg child_data (spheres data) (bg, (0, 0, 0), False) of
                (child_min, child_min_ijk, dist_found) \<Rightarrow>
                  if dist_found then
                    (let res1 = (if child_min < min_distance res
                                 then res\<lparr>min_distance := child_min,
                                          link_name1 := child_name data ! i\<rparr>
                                 else res)
                     in if q_gradient data
                        then Inr (blend_gradient bg child_data child_min child_min_ijk
                                    (res1, grad, total_weights))
                        else Inr (res1, grad, total_weights))
                  else Inr (res, grad, total_weights))
        else Inl IndexOutOfRange)"

text \<open>The loop over the candidates, from the initialised result and zero accumulators.\<close>

definition blend_loop ::
  "real \<Rightarrow> DistanceQueryData \<Rightarrow> (LinkType \<Rightarrow> SDFData list) \<Rightarrow> DistanceResultsData
     \<Rightarrow> error + (DistanceResultsData \<times> vec3 \<times> real)" where
  "blend_loop bg data sdfs_data res =
     for_indices (child_step bg data sdfs_data) [0..<length (child_index data)]
       (res\<lparr>min_distance := bg, link_name0 := parent_name data, hasNearestPoints := False\<rparr>,
        vzero, 0)"

text \<open>The final \<^verbatim>\<open>if (res.hasGradient)\<close> block.\<close>

definition finish_gradient :: "DistanceResultsData \<times> vec3 \<times> real \<Rightarrow> DistanceResultsData" where
  "finish_gradient st =
     (case st of (res, grad, total_weights) \<Rightarrow>
        if hasGradient res then
          (if total_weights = 0 then res\<lparr>gradient := (0, 0, 0)\<rparr>
           else res\<lparr>gradient := eigen_normalize
                    (case grad of (x, y, z) \<Rightarrow>
                       (x / total_weights, y / total_weights, z / total_weights))\<rparr>)
        else res)"

definition distanceSelfHelper ::
  "real \<Rightarrow> DistanceQueryData \<Rightarrow> (LinkType \<Rightarrow> SDFData list) \<Rightarrow> DistanceResultsData
     \<Rightarrow> error + DistanceResultsData" where
  "distanceSelfHelper bg data sdfs_data res =
     (case blend_loop bg data sdfs_data res of
        Inl e \<Rightarrow> Inl e
      | Inr st \<Rightarrow> Inr (finish_gradient st))"

text \<open>\<^verbatim>\<open>RobotModel::getJointModelGroup\<close>: the group of that name, or a null pointer.\<close>

definition getJointModelGroup :: "RobotModel \<Rightarrow> string \<Rightarrow> link list option" where
  "getJointModelGroup m name = map_of (getJointModelGroups m) name"

text \<open>
  The three snapshot loops of \<^verbatim>\<open>distanceSelf\<close>. Each passes \<^verbatim>\<open>getGrid()\<close> of a field to
  the \<^verbatim>\<open>SDFData\<close> constructor, which wraps the grid in an accessor; a field that is null,
  or one without a grid, is a null dereference there.
\<close>

definition active_snapshot ::
  "(FloatGrid \<Rightarrow> mat4 option \<Rightarrow> SDFData) \<Rightarrow> CollisionRobotOpenVDB \<Rightarrow> DistanceRequest \<Rightarrow> RobotState
     \<Rightarrow> DistanceQueryData list \<times> SDFData list \<Rightarrow> nat
     \<Rightarrow> error + (DistanceQueryData list \<times> SDFData list)" where
  "active_snapshot mk c req state st i =
     (case st of (dq, data_active) \<Rightarrow>
        if i < length dq \<and> i < length (active_spheres c) \<and> i < length (active_sdf c) then
          (let tf = Affine3dToMat4d (state (active_links c ! i));
               q = (dq ! i)\<lparr>spheres := map (\<lambda>p. (mat_vec tf (fst p), snd p)) (active_spheres c ! i),
                            q_gradient := r_gradient req\<rparr>
           in case active_sdf c ! i of
                None \<Rightarrow> Inl NullFieldDereference
              | Some f \<Rightarrow>
                  (case grid f of
                     None \<Rightarrow> Inl NullGridDereference
                   | Some g \<Rightarrow> Inr (dq[i := q], data_active @ [mk g (Some (transpose4 tf))])))
        else Inl IndexOutOfRange)"

definition dynamic_snapshot ::
  "(FloatGrid \<Rightarrow> mat4 option \<Rightarrow> SDFData) \<Rightarrow> CollisionRobotOpenVDB \<Rightarrow> RobotState
     \<Rightarrow> SDFData list \<Rightarrow> nat \<Rightarrow> error + SDFData list" where
  "dynamic_snapshot mk c state data_dynamic i =
     (if i < length (dynamic_sdf c) then
        (case grid (dynamic_sdf c ! i) of
           None \<Rightarrow> Inl NullGridDereference
         | Some g \<Rightarrow>
             Inr (data_dynamic @ [mk g (Some (Affine3dToMat4dAffine (state (dynamic_links c ! i))))]))
      else Inl IndexOutOfRange)"

definition static_snapshot ::
  "(FloatGrid \<Rightarrow> mat4 option \<Rightarrow> SDFData) \<Rightarrow> CollisionRobotOpenVDB
     \<Rightarrow> SDFData list \<Rightarrow> nat \<Rightarrow> error + SDFData list" where
  "static_snapshot mk c data_static i =
     (if i < length (static_sdf c) then
        (case grid (static_sdf c ! i) of
           None \<Rightarrow> Inl NullGridDereference
         | Some g \<Rightarrow> Inr (data_static @ [mk g None]))
      else Inl IndexOutOfRange)"

text \<open>The loop "Compute minimum distance": one result per plan that is not empty.\<close>

definition parent_step ::
  "real \<Rightarrow> DistanceResultsData \<Rightarrow> DistanceQueryData list \<Rightarrow> (LinkType \<Rightarrow> SDFData list)
     \<Rightarrow> DistanceResult \<Rightarrow> nat \<Rightarrow> error + DistanceResult" where
  "parent_step bg d0 dq sdfs_data res i =
     (if \<not> q_empty (dq ! i) then
        (case distanceSelfHelper bg (dq ! i) sdfs_data d0 of
           Inl e \<Rightarrow> Inl e
         | Inr d \<Rightarrow> Inr (res\<lparr>distance := map_insert (distance res) (link_name0 d) d\<rparr>))
      else Inr res)"

text \<open>
  The closing block: \<^verbatim>\<open>res.distance.begin()\<close> is read before the loop, then the first
  entry with the smallest \<open>min_distance\<close> below the background is looked up again.
\<close>

definition select_minimum :: "real \<Rightarrow> DistanceResultsData \<Rightarrow> DistanceResult \<Rightarrow> error + DistanceResult" where
  "select_minimum bg d0 res =
     (case distance res of
        [] \<Rightarrow> Inl EndIteratorDereference
      | first # rest \<Rightarrow>
          (let best = fold (\<lambda>it st. if min_distance (snd it) < snd st
                                    then (link_name0 (snd it), min_distance (snd it)) else st)
                        (distance res) (link_name0 (snd first), bg)
           in case map_index (distance res) (fst best) d0 of
                (mp, v) \<Rightarrow> Inr (res\<lparr>distance := mp, minimum_distance := v\<rparr>)))"

text \<open>
  \<^verbatim>\<open>distanceSelf\<close>. \<open>d0\<close> is a default-constructed \<^verbatim>\<open>DistanceResultsData\<close> (its
  declaration is MoveIt's). The group is fetched and dereferenced for its link names,
  which are then not used.
\<close>

definition distanceSelf ::
  "(FloatGrid \<Rightarrow> mat4 option \<Rightarrow> SDFData) \<Rightarrow> DistanceResultsData \<Rightarrow> RobotModel
     \<Rightarrow> CollisionRobotOpenVDB \<Rightarrow> DistanceRequest \<Rightarrow> DistanceResult \<Rightarrow> RobotState
     \<Rightarrow> error + DistanceResult" where
  "distanceSelf mk d0 m c req res state =
     (case getJointModelGroup m (group_name req) of
        None \<Rightarrow> Inl NullGroupDereference
      | Some group_links \<Rightarrow>
     (case for_indices (active_snapshot mk c req state) [0..<length (active_links c)]
             (dist_query c, []) of
        Inl e \<Rightarrow> Inl e
      | Inr (dq, data_active) \<Rightarrow>
     (case for_indices (dynamic_snapshot mk c state) [0..<length (dynamic_links c)] [] of
        Inl e \<Rightarrow> Inl e
      | Inr data_dynamic \<Rightarrow>
     (case for_indices (static_snapshot mk c) [0..<length (static_links c)] [] of
        Inl e \<Rightarrow> Inl e
      | Inr data_static \<Rightarrow>
     (case for_indices
             (parent_step (background c) d0 dq
                (\<lambda>t. case t of Static \<Rightarrow> data_static | Active \<Rightarrow> data_active
                              | Dynamic \<Rightarrow> data_dynamic))
             [0..<length dq] res of
        Inl e \<Rightarrow> Inl e
      | Inr res' \<Rightarrow> select_minimum (background c) d0 res')))))"

section \<open>Concrete inputs\<close>

text \<open>
  An OpenVDB whose sphere packer returns exactly one sphere for every grid, as the
  source remarks ("openvdb appears to ALWAYS insert one sphere"). Volumes are flat and
  the union is the pointwise minimum.
\<close>

definition vdb_one_sphere :: openvdb where
  "vdb_one_sphere =
     \<lparr>meshToVolume = (\<lambda>shape pose v ex inb ijk. 0),
      createLevelSetSphere = (\<lambda>r centre v hw ijk. 0),
      csgUnion = (\<lambda>a b ijk. min (a ijk) (b ijk)),
      tools_fillWithSpheres = (\<lambda>g n overlapping rmin rmax iso cnt. [(0, 0, 0, 1)])\<rparr>"

text \<open>
  A model whose root \<open>world\<close> has no geometry. \<open>base\<close> and \<open>pedestal\<close> are attached to
  it by fixed joints, so each of the three lists the other two as fixed attachments;
  \<open>tool\<close> moves. The joint group \<open>arm\<close> is the chain from \<open>world\<close> to \<open>tool\<close>, so it lists
  \<open>base\<close> and \<open>tool\<close>. Every link but the root carries a unit box.
\<close>

definition arm_model :: RobotModel where
  "arm_model =
     \<lparr>getRootLink = ''world'',
      getLinkModelsWithCollisionGeometry = [''base'', ''pedestal'', ''tool''],
      getAssociatedFixedTransforms =
        (\<lambda>l. if l = ''world'' then [(''base'', Identity), (''pedestal'', Identity)]
             else if l = ''base'' then [(''pedestal'', Identity), (''world'', Identity)]
             else if l = ''pedestal'' then [(''base'', Identity), (''world'', Identity)]
             else []),
      getJointModelGroups = [(''arm'', [''base'', ''tool''])],
      getGeometry = (\<lambda>l. if l = ''world'' then [] else [(BOX (1, 1, 1), Identity)]),
      getDisabledCollisionPairs = []\<rparr>"

text \<open>The engine for that model at voxel size 1, background 10 and bands 3.\<close>

definition arm_engine0 :: CollisionRobotOpenVDB where
  "arm_engine0 = initial_engine arm_model 1 10 3 3"

section \<open>Predicates used in the statements\<close>







text \<open>
  The static and the active class as the first two build steps of the constructor
  leave them, before \<^verbatim>\<open>createDynamicSDFs\<close> runs.
\<close>

definition static_and_active ::
  "nat \<Rightarrow> openvdb \<Rightarrow> RobotModel \<Rightarrow> CollisionRobotOpenVDB \<Rightarrow> error + (link list \<times> link list)" where
  "static_and_active fuel vdb m c =
     (case createStaticSDFs fuel vdb m c of
        Inl e \<Rightarrow> Inl e
      | Inr c2 \<Rightarrow>
          (case createActiveSDFs vdb m c2 of
             Inl e \<Rightarrow> Inl e
           | Inr c3 \<Rightarrow> Inr (static_links c3, active_links c3)))"


text \<open>
  The field the retry loop leaves for a link of \<open>arm_model\<close> when it stops after its
  second attempt: voxel size \<open>v / 2\<close>, bands scaled by \<open>v / (v / 2)\<close>.
\<close>

definition half_field :: "real \<Rightarrow> real \<Rightarrow> real \<Rightarrow> real \<Rightarrow> link \<Rightarrow> OpenVDBDistanceField" where
  "half_field v bg ex inb l =
     addLinkToField vdb_one_sphere arm_model (new_field (v * 0.5) bg) l
       Identity ((v / (v * 0.5)) * ex) ((v / (v * 0.5)) * inb)"

text \<open>
  Concrete inputs of the helper. The grids have voxel size 1 and the identity
  transform: a world point is rounded to its voxel and a gradient is not rescaled.
  The background is 10. \<open>ramp_up\<close> is a field whose distance grows with x around the
  origin (an obstacle on the side of negative x), \<open>ramp_down\<close> its mirror image, and
  \<open>ramp_diagonal\<close> grows with x and falls with y (an obstacle whose surface normal
  is along (1, -1, 0)).
\<close>

definition unit_sdf :: "FloatGrid \<Rightarrow> SDFData" where
  "unit_sdf g =
     \<lparr>getValue = g,
      worldToIndexNodeCentered = (\<lambda>p. case p of (x, y, z) \<Rightarrow> (round x, round y, round z)),
      applyIJT = (\<lambda>v. v)\<rparr>"

definition ramp_up :: FloatGrid where
  "ramp_up = (\<lambda>ijk. case ijk of (i, j, k) \<Rightarrow>
     if j = 0 \<and> k = 0 \<and> - 1 \<le> i \<and> i \<le> 1 then 2 + real_of_int i else 10)"

definition ramp_down :: FloatGrid where
  "ramp_down = (\<lambda>ijk. case ijk of (i, j, k) \<Rightarrow>
     if j = 0 \<and> k = 0 \<and> - 1 \<le> i \<and> i \<le> 1 then 2 - real_of_int i else 10)"

definition ramp_diagonal :: FloatGrid where
  "ramp_diagonal = (\<lambda>ijk. case ijk of (i, j, k) \<Rightarrow>
     if k = 0 \<and> - 1 \<le> i \<and> i \<le> 1 \<and> - 1 \<le> j \<and> j \<le> 1
     then 2 + real_of_int i - real_of_int j else 10)"

text \<open>A cleared \<^verbatim>\<open>DistanceResultsData\<close>.\<close>

definition cleared :: DistanceResultsData where
  "cleared =
     \<lparr>min_distance = 0, link_name0 = [], link_name1 = [], gradient = (0, 0, 0),
      hasGradient = False, hasNearestPoints = False\<rparr>"


definition beside_wedge :: DistanceQueryData where
  "beside_wedge =
     \<lparr>parent_name = ''arm'', child_name = [''wedge''], child_index = [0],
      child_type = [Static], spheres = [((0, 0, 0), 1)],
      q_gradient = True, q_empty = False\<rparr>"

definition static_only :: "SDFData list \<Rightarrow> LinkType \<Rightarrow> SDFData list" where
  "static_only xs t = (case t of Static \<Rightarrow> xs | Active \<Rightarrow> [] | Dynamic \<Rightarrow> [])"



text \<open>
  A model with nothing to query from: \<open>base\<close> is fixed to the root, \<open>door\<close> has collision
  geometry but belongs to no joint group, and the links of the only group, \<open>arm\<close>, have
  no collision geometry. The engine built for it has no active part.
\<close>

definition passive_model :: RobotModel where
  "passive_model =
     \<lparr>getRootLink = ''world'',
      getLinkModelsWithCollisionGeometry = [''base'', ''door''],
      getAssociatedFixedTransforms =
        (\<lambda>l. if l = ''world'' then [(''base'', Identity)]
             else if l = ''base'' then [(''world'', Identity)] else []),
      getJointModelGroups = [(''arm'', [''elbow''])],
      getGeometry = (\<lambda>l. if l = ''base'' \<or> l = ''door'' then [(BOX (1, 1, 1), Identity)] else []),
      getDisabledCollisionPairs = []\<rparr>"

text \<open>
  The two-part scenario: a wall fixed to the root, and a spherical part \<open>arm\<close> that is
  the only link of the joint group \<open>arm\<close>; a second group \<open>hand\<close> has a link without
  geometry. In \<open>vdb_cell\<close> every mesh becomes the field \<open>ramp_up\<close>, a sphere becomes a
  field that is negative at the origin, and the packer returns two spheres of radius 1,
  at the origin and one voxel above it.
\<close>

definition cell_model :: RobotModel where
  "cell_model =
     \<lparr>getRootLink = ''world'',
      getLinkModelsWithCollisionGeometry = [''wall'', ''arm''],
      getAssociatedFixedTransforms =
        (\<lambda>l. if l = ''world'' then [(''wall'', Identity)]
             else if l = ''wall'' then [(''world'', Identity)] else []),
      getJointModelGroups = [(''arm'', [''arm'']), (''hand'', [''palm''])],
      getGeometry = (\<lambda>l. if l = ''wall'' then [(BOX (4, 4, 4), Identity)]
                         else if l = ''arm'' then [(SPHERE 1, Identity)] else []),
      getDisabledCollisionPairs = []\<rparr>"

definition ball_grid :: FloatGrid where
  "ball_grid = (\<lambda>ijk. if ijk = (0, 0, 0) then - 1 else 10)"

definition vdb_cell :: openvdb where
  "vdb_cell =
     \<lparr>meshToVolume = (\<lambda>shape pose v ex inb. ramp_up),
      createLevelSetSphere = (\<lambda>r centre v hw. ball_grid),
      csgUnion = (\<lambda>a b ijk. min (a ijk) (b ijk)),
      tools_fillWithSpheres = (\<lambda>g n overlapping rmin rmax iso cnt. [(0, 0, 0, 1), (0, 0, 1, 1)])\<rparr>"

text \<open>The \<^verbatim>\<open>SDFData\<close> constructor for grids of voxel size 1 whose parts are at the identity.\<close>

definition unit_mk :: "FloatGrid \<Rightarrow> mat4 option \<Rightarrow> SDFData" where
  "unit_mk g tf = unit_sdf g"

definition fresh_result :: DistanceResult where
  "fresh_result = \<lparr>distance = [], minimum_distance = cleared\<rparr>"

definition at_identity :: RobotState where
  "at_identity = (\<lambda>l. Identity)"

text \<open>
  The plan the constructor builds for \<open>arm\<close> in the two-part scenario, and the result of
  its query with gradients requested: the wall at distance 1, away from it along x.
\<close>

definition cell_plan :: DistanceQueryData where
  "cell_plan =
     \<lparr>parent_name = ''arm'', child_name = [''wall''], child_index = [0],
      child_type = [Static], spheres = [], q_gradient = False, q_empty = False\<rparr>"

definition cell_distance :: DistanceResultsData where
  "cell_distance =
     \<lparr>min_distance = 1, link_name0 = ''arm'', link_name1 = ''wall'', gradient = (1, 0, 0),
      hasGradient = True, hasNearestPoints = False\<rparr>"

text \<open>
  A model whose root \<open>bench\<close> carries geometry, with \<open>vise\<close> fixed to it one unit along x:
  each lists the other as a fixed attachment.
\<close>

definition along_x :: "real \<Rightarrow> mat4" where
  "along_x d = (\<lambda>i j. if i = j then 1 else if i = 0 \<and> j = 3 then d else 0)"

definition bench_model :: RobotModel where
  "bench_model =
     \<lparr>getRootLink = ''bench'',
      getLinkModelsWithCollisionGeometry = [''bench'', ''vise''],
      getAssociatedFixedTransforms =
        (\<lambda>l. if l = ''bench'' then [(''vise'', along_x 1)]
             else if l = ''vise'' then [(''bench'', along_x (- 1))] else []),
      getJointModelGroups = [],
      getGeometry = (\<lambda>l. [(BOX (1, 1, 1), Identity)]),
      getDisabledCollisionPairs = []\<rparr>"

definition bench_engine0 :: CollisionRobotOpenVDB where
  "bench_engine0 = initial_engine bench_model 1 10 3 3"
section \<open>Properties of the allow-list filter\<close>

lemma fun_upd2_apply:
  "(mx((n1, n2) \<mapsto> v, (n2, n1) \<mapsto> v)) (a, b) =
     (if a = n2 \<and> b = n1 then Some v else if a = n1 \<and> b = n2 then Some v else mx (a, b))"
  by simp

lemma setEntry_apply:
  "setEntry mx n1 n2 allowed (a, b) =
     (if a = n2 \<and> b = n1 then Some (if allowed then ALWAYS else NEVER)
      else if a = n1 \<and> b = n2 then Some (if allowed then ALWAYS else NEVER)
      else mx (a, b))"
  unfolding setEntry_def Let_def by (rule fun_upd2_apply)

lemma setEntry_swapped: "setEntry mx n1 n2 allowed (n2, n1) = Some (if allowed then ALWAYS else NEVER)"
  by (simp only: setEntry_apply simp_thms if_True)

lemma setEntry_same: "setEntry mx n1 n2 allowed (n1, n2) = Some (if allowed then ALWAYS else NEVER)"
  by (simp only: setEntry_apply simp_thms if_True if_cancel)

lemma setEntry_other:
  "\<not> (a = n2 \<and> b = n1) \<Longrightarrow> \<not> (a = n1 \<and> b = n2) \<Longrightarrow> setEntry mx n1 n2 allowed (a, b) = mx (a, b)"
  by (simp only: setEntry_apply if_False)

lemma setEntry_symmetric:
  assumes "acm_symmetric mx"
  shows "acm_symmetric (setEntry mx n1 n2 allowed)"
proof -
  have s: "mx (a, b) = mx (b, a)" for a b
    using assms by (simp add: acm_symmetric_def getAllowedCollision_def)
  have "setEntry mx n1 n2 allowed (a, b) = setEntry mx n1 n2 allowed (b, a)" for a b
  proof (cases "a = n2 \<and> b = n1")
    case True
    then have "a = n2" and "b = n1" by blast+
    then show ?thesis by (simp only: setEntry_swapped setEntry_same)
  next
    case F1: False
    show ?thesis
    proof (cases "a = n1 \<and> b = n2")
      case True
      then have "a = n1" and "b = n2" by blast+
      then show ?thesis by (simp only: setEntry_swapped setEntry_same)
    next
      case F2: False
      from F1 have F1': "\<not> (b = n1 \<and> a = n2)" by blast
      from F2 have F2': "\<not> (b = n2 \<and> a = n1)" by blast
      show ?thesis
        by (simp only: setEntry_other [OF F1 F2] setEntry_other [OF F2' F1'] s [of a b])
    qed
  qed
  then show ?thesis
    by (simp add: acm_symmetric_def getAllowedCollision_def)
qed
lemma empty_acm_symmetric: "acm_symmetric (\<lambda>p. None)"
  by (simp add: acm_symmetric_def getAllowedCollision_def)

text \<open>
  C8. The pair must be queried (\<open>isCollisionAllowed\<close> is false) whenever the allow-list
  has no entry for it, and whenever there is no allow-list at all; the pair is skipped
  exactly when the list holds the entry ALWAYS for it; and on a symmetric allow-list
  (the only kind \<open>setEntry\<close> builds) the answer for (A, B) is the answer for (B, A).
\<close>

theorem isCollisionAllowed_default_and_symmetry:
  "(getAllowedCollision a A B = None \<longrightarrow> \<not> isCollisionAllowed A B (Some a)) \<and>
   (isCollisionAllowed A B mx \<longleftrightarrow> (\<exists>a'. mx = Some a' \<and> getAllowedCollision a' A B = Some ALWAYS)) \<and>
   (acm_symmetric a \<longrightarrow> isCollisionAllowed A B (Some a) = isCollisionAllowed B A (Some a)) \<and>
   \<not> isCollisionAllowed A B None \<and>
   isCollisionAllowed A B None = isCollisionAllowed B A None"
  by (auto simp: isCollisionAllowed_def acm_symmetric_def split: option.splits)

theorem isCollisionAllowed_default_and_symmetry_witness:
  "getAllowedCollision (setEntry (\<lambda>p. None) ''a'' ''b'' True) ''a'' ''c'' = None \<and>
   \<not> isCollisionAllowed ''a'' ''c'' (Some (setEntry (\<lambda>p. None) ''a'' ''b'' True)) \<and>
   acm_symmetric (setEntry (\<lambda>p. None) ''a'' ''b'' True) \<and>
   isCollisionAllowed ''a'' ''b'' (Some (setEntry (\<lambda>p. None) ''a'' ''b'' True)) \<and>
   isCollisionAllowed ''b'' ''a'' (Some (setEntry (\<lambda>p. None) ''a'' ''b'' True))"
proof -
  let ?m = "setEntry (\<lambda>p. None) ''a'' ''b'' True"
  have none: "getAllowedCollision ?m ''a'' ''c'' = None"
    by (simp add: getAllowedCollision_def setEntry_def)
  have sym: "acm_symmetric ?m"
    by (rule setEntry_symmetric [OF empty_acm_symmetric])
  have always: "getAllowedCollision ?m ''a'' ''b'' = Some ALWAYS"
    by (simp add: getAllowedCollision_def setEntry_def)
  note ac = isCollisionAllowed_default_and_symmetry [of ?m "''a''" "''c''" "Some ?m"]
  note ab = isCollisionAllowed_default_and_symmetry [of ?m "''a''" "''b''" "Some ?m"]
  have skip: "\<not> isCollisionAllowed ''a'' ''c'' (Some ?m)"
    using ac [THEN conjunct1] none by simp
  have fwd: "isCollisionAllowed ''a'' ''b'' (Some ?m)"
    using ab [THEN conjunct2, THEN conjunct1] always by simp
  have swap: "isCollisionAllowed ''a'' ''b'' (Some ?m) = isCollisionAllowed ''b'' ''a'' (Some ?m)"
    using ab [THEN conjunct2, THEN conjunct2, THEN conjunct1] sym by simp
  from swap fwd have bwd: "isCollisionAllowed ''b'' ''a'' (Some ?m)" by simp
  show ?thesis
    by (intro conjI none skip sym fwd bwd)
qed

section \<open>Properties of the distance query on an empty field\<close>

lemma addShapeToField_unsupported:
  "unsupported s \<Longrightarrow> addShapeToField vdb f s pose ex inb = f"
  by (auto simp: unsupported_def addShapeToField_def)

lemma addShapes_unsupported:
  "list_all (\<lambda>p. unsupported (fst p)) shapes \<Longrightarrow> addShapes vdb f shapes pose ex inb = f"
  by (induction shapes arbitrary: f) (auto simp: addShapeToField_unsupported)

text \<open>
  C9, as the source has it. A field into which only unsupported shapes were inserted has
  neither grid nor accessor, and in the cached-accessor mode \<open>getDistance\<close> answers 0 for
  every coordinate, whatever the background.
\<close>

theorem getDistance_empty_field:
  "list_all (\<lambda>p. unsupported (fst p)) shapes \<Longrightarrow>
   getDistance (addShapes vdb (new_field v bg) shapes pose ex inb) c False = Inr 0"
  by (simp add: addShapes_unsupported getDistance_def new_field_def)

theorem getDistance_empty_field_witness:
  "list_all (\<lambda>p. unsupported (fst p)) [(PLANE, Identity), (OCTREE, Identity)] \<and>
   getDistance (addShapes vdb_one_sphere (new_field (1 / 100) (1 / 2))
                  [(PLANE, Identity), (OCTREE, Identity)] Identity 3 3) (0, 0, 0) False = Inr 0"
proof -
  have h: "list_all (\<lambda>p. unsupported (fst p)) [(PLANE, Identity), (OCTREE, Identity)]"
    by (simp add: unsupported_def)
  from h getDistance_empty_field [OF h] show ?thesis by blast
qed

text \<open>
  C9 as stated fails: a fresh field with background 1/2, queried in the cached-accessor
  mode, does not answer its background.
\<close>

theorem getDistance_empty_field_counterexample:
  "getDistance (new_field (1 / 100) (1 / 2)) (0, 0, 0) False
     \<noteq> Inr (f_background (new_field (1 / 100) (1 / 2)))"
  by (simp add: getDistance_def new_field_def)

lemma getDistance_empty_field_thread_safe:
  "getDistance (new_field v bg) c True = Inl NullGridDereference"
  by (simp add: getDistance_def new_field_def)

section \<open>Properties of the static field builder\<close>











lemma links_push_static [simp]: "links (push_static vdb m c l pose) = links c"
  by (simp add: push_static_def)

lemma arm_attachments:
  "getAssociatedFixedTransforms arm_model ''world'' = [(''base'', Identity), (''pedestal'', Identity)]"
  "getAssociatedFixedTransforms arm_model ''base'' = [(''pedestal'', Identity), (''world'', Identity)]"
  "getAssociatedFixedTransforms arm_model ''pedestal'' = [(''base'', Identity), (''world'', Identity)]"
  "getRootLink arm_model = ''world''"
  "getJointModelGroups arm_model = [(''arm'', [''base'', ''tool''])]"
  "getLinkModelsWithCollisionGeometry arm_model = [''base'', ''pedestal'', ''tool'']"
  by (simp_all add: arm_model_def)

lemma arm_static_eval:
  assumes "links c = [''base'', ''pedestal'', ''tool'']"
  shows "createStaticSDFs 4 vdb arm_model c =
     Inr (push_static vdb arm_model (push_static vdb arm_model c ''base'' Identity) ''pedestal'' Identity)"
proof -
  have n: "(4::nat) = Suc (Suc (Suc (Suc 0)))" by simp
  show ?thesis
    unfolding n createStaticSDFs_def addAssociatedFixedTransforms_def
    by (simp add: arm_attachments assms Let_def)
qed

lemma arm_engine0_links: "links arm_engine0 = [''base'', ''pedestal'', ''tool'']"
  by (simp add: arm_engine0_def initial_engine_def arm_attachments)

lemma arm_engine0_static: "static_links arm_engine0 = []" "static_sdf arm_engine0 = []"
  by (simp_all add: arm_engine0_def initial_engine_def)







text \<open>
  When the walk starts, the root is not among the visited links. In \<open>bench_model\<close> the
  root has geometry and the map of \<open>vise\<close> lists it, so the walk registers it again, at
  the transform of that entry.
\<close>

lemma bench_static_eval:
  "createStaticSDFs 2 vdb bench_model bench_engine0 =
     Inr (push_static vdb bench_model
            (push_static vdb bench_model
               (push_static vdb bench_model bench_engine0 ''bench'' Identity)
               ''vise'' (along_x 1))
            ''bench'' (along_x (- 1)))"
proof -
  have n: "(2::nat) = Suc (Suc 0)" by simp
  have lk: "links bench_engine0 = [''bench'', ''vise'']"
    by (simp add: bench_engine0_def initial_engine_def bench_model_def)
  have att: "getRootLink bench_model = ''bench''"
    "getAssociatedFixedTransforms bench_model ''bench'' = [(''vise'', along_x 1)]"
    "getAssociatedFixedTransforms bench_model ''vise'' = [(''bench'', along_x (- 1))]"
    by (simp_all add: bench_model_def)
  show ?thesis
    unfolding n createStaticSDFs_def addAssociatedFixedTransforms_def
    by (simp add: att lk Let_def)
qed

lemma root_with_geometry_registered_again:
  "\<exists>c'. createStaticSDFs 2 vdb bench_model bench_engine0 = Inr c' \<and>
     static_links c' = [''bench'', ''vise'', ''bench''] \<and> length (static_sdf c') = 3 \<and>
     static_sdf c' ! 2 = nominal_field vdb bench_model bench_engine0 ''bench'' (along_x (- 1)) \<and>
     along_x (- 1) \<noteq> Identity"
proof -
  have s: "static_links bench_engine0 = []" "static_sdf bench_engine0 = []"
    by (simp_all add: bench_engine0_def initial_engine_def)
  have "along_x (- 1) 0 3 \<noteq> Identity 0 3"
    by (simp add: along_x_def Identity_def)
  then have "along_x (- 1) \<noteq> Identity" by metis
  then show ?thesis
    unfolding bench_static_eval
    by (simp add: push_static_def nominal_field_def s)
qed

section \<open>Properties of the sphere retry loop\<close>

lemma one_sphere_fill:
  "grid f = Some g \<Longrightarrow>
   fillWithSpheres vdb_one_sphere f sph 20 True 1 FLT_MAX 0 100000 = Inr (sph @ [((0, 0, 0), 1)])"
  by (simp add: fillWithSpheres_def vdb_one_sphere_def)

lemma arm_field_grid:
  "l \<noteq> ''world'' \<Longrightarrow>
   grid (addLinkToField vdb_one_sphere arm_model (new_field v bg) l pose ex inb) = Some (\<lambda>ijk. 0)"
  by (simp add: addLinkToField_def arm_model_def addShapeToField_def new_field_def
      vdb_one_sphere_def Let_def)

lemma sphere_retry_two_attempts:
  assumes "l \<noteq> ''world''"
  shows "sphere_retry (Suc (Suc k)) vdb_one_sphere arm_model c l v (sdf, []) =
     Inr (Some (addLinkToField vdb_one_sphere arm_model (new_field (v * 0.5) (background c)) l
                  Identity ((voxel_size c / (v * 0.5)) * exBandWidth c)
                  ((voxel_size c / (v * 0.5)) * inBandWidth c)),
          [((0, 0, 0), 1), ((0, 0, 0), 1)])"
  by (simp add: Let_def one_sphere_fill [OF arm_field_grid [OF assms]])

text \<open>
  C3 at a packer that returns one sphere per call. Each of the two calls yields one
  sphere, yet the loop stops after the second attempt, at voxel size 1/2: the size it
  tests is that of the accumulated sphere list, which holds the sphere of the first
  attempt as well.
\<close>

theorem retry_counts_accumulated_spheres:
  "(\<forall>g. length (tools_fillWithSpheres vdb_one_sphere g 20 True 1 FLT_MAX 0 100000) = 1) \<and>
   sphere_retry 10 vdb_one_sphere arm_model arm_engine0 ''tool'' 1 (None, []) =
     Inr (Some (addLinkToField vdb_one_sphere arm_model (new_field (1 / 2) 10) ''tool'' Identity 6 6),
          [((0, 0, 0), 1), ((0, 0, 0), 1)])"
proof -
  have t: "''tool'' \<noteq> ''world''" by simp
  have n: "(10::nat) = Suc (Suc 8)" by simp
  show ?thesis
    unfolding n sphere_retry_two_attempts [OF t]
    by (simp add: vdb_one_sphere_def arm_engine0_def initial_engine_def)
qed

section \<open>Properties of the classification\<close>

lemma sphere_retry_10:
  assumes "l \<noteq> ''world''"
  shows "sphere_retry 10 vdb_one_sphere arm_model c l (voxel_size c) (sdf, []) =
     Inr (Some (half_field (voxel_size c) (background c) (exBandWidth c) (inBandWidth c) l),
          [((0, 0, 0), 1), ((0, 0, 0), 1)])"
proof -
  have n: "(10::nat) = Suc (Suc 8)" by simp
  show ?thesis
    unfolding n half_field_def by (rule sphere_retry_two_attempts [OF assms])
qed

lemma arm_active_step:
  assumes "i < length (active_links c)" "length (active_spheres c) = length (active_links c)"
    "length (active_sdf c) = length (active_links c)" "active_links c ! i \<noteq> ''world''"
    "active_spheres c ! i = []"
  shows "active_step vdb_one_sphere arm_model c i =
     Inr (c\<lparr>active_spheres := (active_spheres c)[i := [((0, 0, 0), 1), ((0, 0, 0), 1)]],
            active_sdf := (active_sdf c)[i := Some (half_field (voxel_size c) (background c)
               (exBandWidth c) (inBandWidth c) (active_links c ! i))]\<rparr>)"
  unfolding active_step_def
  by (simp add: assms sphere_retry_10)

lemma arm_collect:
  "collect_active_links [''base'', ''pedestal'', ''tool''] [(''arm'', [''base'', ''tool''])] []
     = [''base'', ''tool'']"
  by (simp add: collect_active_links_def)

lemma arm_active_eval:
  assumes "links c = [''base'', ''pedestal'', ''tool'']" "active_links c = []"
    "active_sdf c = []" "active_spheres c = []"
  shows "\<exists>c'. createActiveSDFs vdb_one_sphere arm_model c = Inr c' \<and>
           active_links c' = [''base'', ''tool''] \<and> static_links c' = static_links c \<and>
           links c' = links c"
  unfolding createActiveSDFs_def
  by (simp add: assms arm_attachments arm_collect resize_def arm_active_step Let_def)

lemma arm_dynamic_eval:
  assumes "links c = [''base'', ''pedestal'', ''tool'']" "static_links c = [''base'', ''pedestal'']"
    "active_links c = [''base'', ''tool'']"
  shows "createDynamicSDFs vdb m c = Inl EraseAtEnd"
  by (simp add: createDynamicSDFs_def assms erase_remove_def)

lemma acm_frame:
  "links (createDefaultAllowedCollisionMatrix m c) = links c"
  "static_links (createDefaultAllowedCollisionMatrix m c) = static_links c"
  "static_sdf (createDefaultAllowedCollisionMatrix m c) = static_sdf c"
  "active_links (createDefaultAllowedCollisionMatrix m c) = active_links c"
  "active_sdf (createDefaultAllowedCollisionMatrix m c) = active_sdf c"
  "active_spheres (createDefaultAllowedCollisionMatrix m c) = active_spheres c"
  by (simp_all add: createDefaultAllowedCollisionMatrix_def Let_def)

lemma push_static_frame:
  "static_links (push_static vdb m c l pose) = static_links c @ [l]"
  "active_links (push_static vdb m c l pose) = active_links c"
  "active_sdf (push_static vdb m c l pose) = active_sdf c"
  "active_spheres (push_static vdb m c l pose) = active_spheres c"
  by (simp_all add: push_static_def)

lemma arm_engine0_active:
  "active_links arm_engine0 = []" "active_sdf arm_engine0 = []" "active_spheres arm_engine0 = []"
  by (simp_all add: arm_engine0_def initial_engine_def)

text \<open>
  Where \<open>createDynamicSDFs\<close> has a defined result, on a list of collision links without
  repetition, the three classes do partition that list: each erasure found its link.
\<close>

lemma erase_remove_distinct:
  assumes "distinct xs" "erase_remove xs x = Inr ys"
  shows "x \<in> set xs \<and> set ys = set xs - {x} \<and> distinct ys"
proof -
  let ?kept = "filter (\<lambda>y. y \<noteq> x) xs"
  from assms(2) have ne: "length ?kept \<noteq> length xs"
    and ys: "ys = ?kept @ drop (Suc (length ?kept)) xs"
    by (auto simp: erase_remove_def Let_def split: if_splits)
  from ne have x: "x \<in> set xs"
    by (metis (mono_tags, lifting) filter_True)
  have "?kept = removeAll x xs"
    by (induction xs) auto
  also have "\<dots> = remove1 x xs"
    using assms(1) by (simp add: distinct_remove1_removeAll)
  finally have k: "?kept = remove1 x xs" .
  with x have "length ?kept = length xs - 1"
    by (simp add: length_remove1)
  with x have "Suc (length ?kept) = length xs"
    by (cases xs) auto
  with ys have "ys = ?kept" by simp
  with x assms(1) show ?thesis by auto
qed

lemma erase_remove_all_distinct:
  "distinct xs \<Longrightarrow> erase_remove_all xs rs = Inr ys \<Longrightarrow>
   distinct rs \<and> set rs \<subseteq> set xs \<and> set ys = set xs - set rs \<and> distinct ys"
proof (induction rs arbitrary: xs)
  case Nil
  then show ?case by simp
next
  case (Cons r rs)
  from Cons.prems(2) obtain zs where zs: "erase_remove xs r = Inr zs"
    and rest: "erase_remove_all zs rs = Inr ys"
    by (auto split: sum.splits)
  from erase_remove_distinct [OF Cons.prems(1) zs]
  have r: "r \<in> set xs" "set zs = set xs - {r}" "distinct zs" by simp_all
  from Cons.IH [OF r(3) rest]
  have ih: "distinct rs" "set rs \<subseteq> set zs" "set ys = set zs - set rs" "distinct ys" by simp_all
  from r ih show ?case by auto
qed

lemma createDynamicSDFs_partition:
  assumes "distinct (links c)" "createDynamicSDFs vdb m c = Inr c'"
  shows "set (static_links c') \<union> set (active_links c') \<union> set (dynamic_links c') = set (links c') \<and>
         set (static_links c') \<inter> set (active_links c') = {} \<and>
         set (static_links c') \<inter> set (dynamic_links c') = {} \<and>
         set (active_links c') \<inter> set (dynamic_links c') = {} \<and>
         distinct (static_links c') \<and> distinct (active_links c') \<and> distinct (dynamic_links c')"
proof -
  from assms(2) obtain d1 d2 where d1: "erase_remove_all (links c) (static_links c) = Inr d1"
    and d2: "erase_remove_all d1 (active_links c) = Inr d2"
    and c': "c' = c\<lparr>dynamic_links := d2,
                      dynamic_sdf := map (\<lambda>l. nominal_field vdb m c l Identity) d2\<rparr>"
    by (auto simp: createDynamicSDFs_def split: sum.splits)
  from erase_remove_all_distinct [OF assms(1) d1]
  have a: "distinct (static_links c)" "set (static_links c) \<subseteq> set (links c)"
    "set d1 = set (links c) - set (static_links c)" "distinct d1" by simp_all
  from erase_remove_all_distinct [OF a(4) d2]
  have b: "distinct (active_links c)" "set (active_links c) \<subseteq> set d1"
    "set d2 = set d1 - set (active_links c)" "distinct d2" by simp_all
  from a b c' show ?thesis by auto
qed

text \<open>
  C1 at a model whose link \<open>base\<close> is fixed to the root and is also a member of the
  joint group \<open>arm\<close>. After the static and the active step \<open>base\<close> is in both classes,
  and \<open>createDynamicSDFs\<close>, which erases one occurrence per static and per active link
  from the list of collision links, then erases at \<^verbatim>\<open>end()\<close>: the constructor has no
  defined result.
\<close>

theorem static_group_member_in_two_classes:
  "static_and_active 4 vdb_one_sphere arm_model
     (createDefaultAllowedCollisionMatrix arm_model arm_engine0)
     = Inr ([''base'', ''pedestal''], [''base'', ''tool'']) \<and>
   new_CollisionRobotOpenVDB 4 vdb_one_sphere arm_model 1 10 3 3 = Inl EraseAtEnd"
proof -
  let ?c1 = "createDefaultAllowedCollisionMatrix arm_model arm_engine0"
  let ?c2 = "push_static vdb_one_sphere arm_model
               (push_static vdb_one_sphere arm_model ?c1 ''base'' Identity) ''pedestal'' Identity"
  have l1: "links ?c1 = [''base'', ''pedestal'', ''tool'']"
    by (simp add: acm_frame arm_engine0_links)
  have st: "createStaticSDFs 4 vdb_one_sphere arm_model ?c1 = Inr ?c2"
    by (rule arm_static_eval [OF l1])
  have c2: "links ?c2 = [''base'', ''pedestal'', ''tool'']" "active_links ?c2 = []"
    "active_sdf ?c2 = []" "active_spheres ?c2 = []" "static_links ?c2 = [''base'', ''pedestal'']"
    by (simp_all add: push_static_frame acm_frame arm_engine0_links arm_engine0_active
        arm_engine0_static)
  from arm_active_eval [OF c2(1-4)] obtain c3 where
    act: "createActiveSDFs vdb_one_sphere arm_model ?c2 = Inr c3"
    and c3: "active_links c3 = [''base'', ''tool'']" "static_links c3 = static_links ?c2"
      "links c3 = links ?c2"
    by blast
  have c3': "links c3 = [''base'', ''pedestal'', ''tool'']"
    "static_links c3 = [''base'', ''pedestal'']"
    by (rule trans [OF c3(3) c2(1)], rule trans [OF c3(2) c2(5)])
  have dyn: "createDynamicSDFs vdb_one_sphere arm_model c3 = Inl EraseAtEnd"
    by (rule arm_dynamic_eval [OF c3' c3(1)])
  have a: "static_and_active 4 vdb_one_sphere arm_model ?c1
             = Inr ([''base'', ''pedestal''], [''base'', ''tool''])"
    by (simp add: static_and_active_def st act c3(1) c3')
  have b: "new_CollisionRobotOpenVDB 4 vdb_one_sphere arm_model 1 10 3 3 = Inl EraseAtEnd"
    unfolding new_CollisionRobotOpenVDB_def arm_engine0_def [symmetric] Let_def
    by (simp add: st act dyn)
  from a b show ?thesis by (rule conjI)
qed

section \<open>Properties of the gradient blending\<close>




lemma for_indices_inv:
  assumes "\<And>s i s'. body s i = Inr s' \<Longrightarrow> P s \<Longrightarrow> P s'"
  shows "for_indices body idx s = Inr s' \<Longrightarrow> P s \<Longrightarrow> P s'"
proof (induction idx arbitrary: s)
  case Nil
  then show ?case by simp
next
  case (Cons i idx)
  from Cons.prems(1) obtain s1 where s1: "body s i = Inr s1" and rest: "for_indices body idx s1 = Inr s'"
    by (auto split: sum.splits)
  from assms [OF s1 Cons.prems(2)] have "P s1" .
  from Cons.IH [OF rest this] show ?case .
qed





lemma sphere_loop_ramps:
  "sphere_loop 10 (unit_sdf ramp_up) [((0, 0, 0), 1)] (10, (0, 0, 0), False) = (1, (0, 0, 0), True)"
  "sphere_loop 10 (unit_sdf ramp_down) [((0, 0, 0), 1)] (10, (0, 0, 0), False) = (1, (0, 0, 0), True)"
  "sphere_loop 10 (unit_sdf ramp_diagonal) [((0, 0, 0), 1)] (10, (0, 0, 0), False) = (1, (0, 0, 0), True)"
  by (simp_all add: unit_sdf_def ramp_up_def ramp_down_def ramp_diagonal_def approxEqual_def)

lemma gradient_ramps:
  "ISGradient_CD_2ND ramp_up (0, 0, 0) = (1, 0, 0)"
  "ISGradient_CD_2ND ramp_down (0, 0, 0) = (- 1, 0, 0)"
  "ISGradient_CD_2ND ramp_diagonal (0, 0, 0) = (1, - 1, 0)"
  by (simp_all add: ISGradient_CD_2ND_def ramp_up_def ramp_down_def ramp_diagonal_def)

lemma normalize_axis:
  "vdb_normalize (1, 0, 0) = (1, 0, 0)"
  "vdb_normalize (- 1, 0, 0) = (- 1, 0, 0)"
  by (simp_all add: vdb_normalize_def vnorm_def vscale_def)

lemma unit_sdf_sel:
  "getValue (unit_sdf g) = g" "applyIJT (unit_sdf g) v = v"
  by (simp_all add: unit_sdf_def)

lemma blend_ramps:
  "blend_gradient 10 (unit_sdf ramp_up) 1 (0, 0, 0) (res, grad, tw) =
     (res\<lparr>hasGradient := True\<rparr>, vadd grad (9, 0, 0), tw + 9)"
  "blend_gradient 10 (unit_sdf ramp_down) 1 (0, 0, 0) (res, grad, tw) =
     (res\<lparr>hasGradient := True\<rparr>, vadd grad (- 9, 0, 0), tw + 9)"
  "blend_gradient 10 (unit_sdf ramp_diagonal) 1 (0, 0, 0) (res, grad, tw) = (res, grad, tw)"
  by (simp_all add: blend_gradient_def unit_sdf_sel gradient_ramps normalize_axis vsum_def vscale_def)






lemma beside_wedge_loop:
  "blend_loop 10 beside_wedge (static_only [unit_sdf ramp_diagonal]) cleared =
     Inr (cleared\<lparr>min_distance := 1, link_name0 := ''arm'', link_name1 := ''wedge''\<rparr>,
          (0, 0, 0), 0)"
  unfolding blend_loop_def child_step_def Let_def
  by (simp add: beside_wedge_def static_only_def sphere_loop_ramps
      blend_ramps cleared_def vzero_def upt_rec del: sphere_loop.simps)

text \<open>
  C5 at a candidate whose raw gradient is (1, -1, 0). The vector is not zero, but its
  components sum to zero, which is what the source tests: the candidate is discarded
  and the result reports no gradient.
\<close>

theorem sum_test_discards_nonzero_gradient:
  "ISGradient_CD_2ND (getValue (unit_sdf ramp_diagonal)) (0, 0, 0) = (1, - 1, 0) \<and>
   distanceSelfHelper 10 beside_wedge (static_only [unit_sdf ramp_diagonal]) cleared =
     Inr (cleared\<lparr>min_distance := 1, link_name0 := ''arm'', link_name1 := ''wedge''\<rparr>) \<and>
   \<not> hasGradient (cleared\<lparr>min_distance := 1, link_name0 := ''arm'', link_name1 := ''wedge''\<rparr>)"
  unfolding distanceSelfHelper_def beside_wedge_loop
  by (simp add: finish_gradient_def cleared_def unit_sdf_sel gradient_ramps)

section \<open>Properties of the self-distance query\<close>

subsection \<open>The two-part scenario, end to end\<close>

lemma acm_frame2:
  "voxel_size (createDefaultAllowedCollisionMatrix m c) = voxel_size c"
  "background (createDefaultAllowedCollisionMatrix m c) = background c"
  "exBandWidth (createDefaultAllowedCollisionMatrix m c) = exBandWidth c"
  "inBandWidth (createDefaultAllowedCollisionMatrix m c) = inBandWidth c"
  "dynamic_links (createDefaultAllowedCollisionMatrix m c) = dynamic_links c"
  "dynamic_sdf (createDefaultAllowedCollisionMatrix m c) = dynamic_sdf c"
  "dist_query (createDefaultAllowedCollisionMatrix m c) = dist_query c"
  by (simp_all add: createDefaultAllowedCollisionMatrix_def Let_def)

lemma initial_engine_sel:
  "links (initial_engine m v bg ex inb) = getLinkModelsWithCollisionGeometry m"
  "static_links (initial_engine m v bg ex inb) = []"
  "static_sdf (initial_engine m v bg ex inb) = []"
  "active_links (initial_engine m v bg ex inb) = []"
  "active_sdf (initial_engine m v bg ex inb) = []"
  "active_spheres (initial_engine m v bg ex inb) = []"
  "dist_query (initial_engine m v bg ex inb) = []"
  "background (initial_engine m v bg ex inb) = bg"
  by (simp_all add: initial_engine_def)

lemma push_static_frame2:
  "static_sdf (push_static vdb m c l pose) = static_sdf c @ [nominal_field vdb m c l pose]"
  "dist_query (push_static vdb m c l pose) = dist_query c"
  "background (push_static vdb m c l pose) = background c"
  by (simp_all add: push_static_def)

lemma acm_of_updates:
  "acm (push_static vdb m c l pose) = acm c"
  by (simp add: push_static_def)

lemma cell_acm:
  "isCollisionAllowed ''wall'' ''arm'' (acm (createDefaultAllowedCollisionMatrix cell_model c)) = False"
  by (simp add: createDefaultAllowedCollisionMatrix_def isCollisionAllowed_def
      getAllowedCollision_def cell_model_def Let_def setEntry_apply)

lemma cell_static_eval:
  assumes "links c = [''wall'', ''arm'']"
  shows "createStaticSDFs 2 vdb cell_model c = Inr (push_static vdb cell_model c ''wall'' Identity)"
proof -
  have n: "(2::nat) = Suc (Suc 0)" by simp
  have att: "getAssociatedFixedTransforms cell_model ''world'' = [(''wall'', Identity)]"
    "getAssociatedFixedTransforms cell_model ''wall'' = [(''world'', Identity)]"
    "getRootLink cell_model = ''world''"
    by (simp_all add: cell_model_def)
  show ?thesis
    unfolding n createStaticSDFs_def addAssociatedFixedTransforms_def
    by (simp add: att assms Let_def)
qed

lemma cell_arm_grid:
  "grid (addLinkToField vdb_cell cell_model (new_field v bg) ''arm'' pose ex inb) = Some ball_grid"
  by (simp add: addLinkToField_def cell_model_def addShapeToField_def new_field_def
      vdb_cell_def Let_def)

lemma cell_wall_grid:
  "grid (nominal_field vdb_cell cell_model c ''wall'' pose) = Some ramp_up"
  by (simp add: nominal_field_def addLinkToField_def cell_model_def addShapeToField_def
      new_field_def vdb_cell_def Let_def)

lemma cell_fill:
  "grid f = Some g \<Longrightarrow>
   fillWithSpheres vdb_cell f sph 20 True 1 FLT_MAX 0 100000 =
     Inr (sph @ [((0, 0, 0), 1), ((0, 0, 1), 1)])"
  by (simp add: fillWithSpheres_def vdb_cell_def)

lemma cell_retry_first:
  "sphere_retry (Suc k) vdb_cell cell_model c ''arm'' v (sdf, []) =
     Inr (Some (addLinkToField vdb_cell cell_model (new_field v (background c)) ''arm'' Identity
                  ((voxel_size c / v) * exBandWidth c) ((voxel_size c / v) * inBandWidth c)),
          [((0, 0, 0), 1), ((0, 0, 1), 1)])"
  by (simp add: Let_def cell_fill [OF cell_arm_grid])

lemma cell_retry:
  "sphere_retry 10 vdb_cell cell_model c ''arm'' v (sdf, []) =
     Inr (Some (addLinkToField vdb_cell cell_model (new_field v (background c)) ''arm'' Identity
                  ((voxel_size c / v) * exBandWidth c) ((voxel_size c / v) * inBandWidth c)),
          [((0, 0, 0), 1), ((0, 0, 1), 1)])"
proof -
  have t: "(10::nat) = Suc 9" by simp
  show ?thesis
    unfolding t by (rule cell_retry_first)
qed

lemma cell_active_eval:
  assumes "links c = [''wall'', ''arm'']" "active_links c = []"
    "active_sdf c = []" "active_spheres c = []"
  shows "createActiveSDFs vdb_cell cell_model c =
     Inr (c\<lparr>active_links := [''arm''],
            active_sdf := [Some (addLinkToField vdb_cell cell_model
                 (new_field (voxel_size c) (background c)) ''arm'' Identity
                 ((voxel_size c / voxel_size c) * exBandWidth c)
                 ((voxel_size c / voxel_size c) * inBandWidth c))],
            active_spheres := [[((0, 0, 0), 1), ((0, 0, 1), 1)]]\<rparr>)"
proof -
  have grp: "getJointModelGroups cell_model = [(''arm'', [''arm'']), (''hand'', [''palm''])]"
    by (simp add: cell_model_def)
  have col: "collect_active_links [''wall'', ''arm''] [(''arm'', [''arm'']), (''hand'', [''palm''])] []
               = [''arm'']"
    by (simp add: collect_active_links_def)
  show ?thesis
    unfolding createActiveSDFs_def active_step_def
    by (simp add: assms grp col resize_def cell_retry Let_def)
qed

lemma cell_dynamic_eval:
  assumes "links c = [''wall'', ''arm'']" "static_links c = [''wall'']" "active_links c = [''arm'']"
  shows "createDynamicSDFs vdb m c = Inr (c\<lparr>dynamic_links := [], dynamic_sdf := []\<rparr>)"
  by (simp add: createDynamicSDFs_def assms erase_remove_def)

lemma cell_query_eval:
  assumes "active_links c = [''arm'']" "active_spheres c = [[((0, 0, 0), 1), ((0, 0, 1), 1)]]"
    "dynamic_links c = []" "static_links c = [''wall'']" "dist_query c = []"
    "\<not> isCollisionAllowed ''wall'' ''arm'' (acm c)"
  shows "createDefaultDistanceQuery c = Inr (c\<lparr>dist_query := [cell_plan]\<rparr>)"
  unfolding createDefaultDistanceQuery_def query_step_def query_children_def
  by (simp add: assms new_DistanceQueryData_def cell_plan_def Let_def)

lemma cell_ctor:
  "\<exists>c. new_CollisionRobotOpenVDB 2 vdb_cell cell_model 1 10 3 3 = Inr c \<and>
       static_links c = [''wall''] \<and> active_links c = [''arm''] \<and>
       dynamic_links c = [] \<and> background c = 10 \<and>
       dist_query c = [cell_plan] \<and>
       active_spheres c = [[((0, 0, 0), 1), ((0, 0, 1), 1)]] \<and>
       map (map_option grid) (active_sdf c) = [Some (Some ball_grid)] \<and>
       map grid (static_sdf c) = [Some ramp_up]"
proof -
  let ?c0 = "initial_engine cell_model 1 10 3 3"
  let ?c1 = "createDefaultAllowedCollisionMatrix cell_model ?c0"
  let ?c2 = "push_static vdb_cell cell_model ?c1 ''wall'' Identity"
  have lm: "getLinkModelsWithCollisionGeometry cell_model = [''wall'', ''arm'']"
    by (simp add: cell_model_def)
  have l1: "links ?c1 = [''wall'', ''arm'']"
    by (simp add: acm_frame initial_engine_sel lm)
  have st: "createStaticSDFs 2 vdb_cell cell_model ?c1 = Inr ?c2"
    by (rule cell_static_eval [OF l1])
  have c2: "links ?c2 = [''wall'', ''arm'']" "active_links ?c2 = []"
    "active_sdf ?c2 = []" "active_spheres ?c2 = []"
    by (simp_all add: push_static_frame acm_frame initial_engine_sel lm)
  have c2': "static_links ?c2 = [''wall'']"
    "static_sdf ?c2 = [nominal_field vdb_cell cell_model ?c1 ''wall'' Identity]"
    "dist_query ?c2 = []" "background ?c2 = 10" "acm ?c2 = acm ?c1"
    by (simp_all add: push_static_frame push_static_frame2 acm_frame acm_frame2
        initial_engine_sel acm_of_updates)
  let ?fa = "addLinkToField vdb_cell cell_model
                 (new_field (voxel_size ?c2) (background ?c2)) ''arm'' Identity
                 ((voxel_size ?c2 / voxel_size ?c2) * exBandWidth ?c2)
                 ((voxel_size ?c2 / voxel_size ?c2) * inBandWidth ?c2)"
  define c3 where "c3 = ?c2\<lparr>active_links := [''arm''], active_sdf := [Some ?fa],
            active_spheres := [[((0, 0, 0), 1), ((0, 0, 1), 1)]]\<rparr>"
  have act: "createActiveSDFs vdb_cell cell_model ?c2 = Inr c3"
    unfolding c3_def by (rule cell_active_eval [OF c2])
  have c3: "active_links c3 = [''arm'']"
      "active_spheres c3 = [[((0, 0, 0), 1), ((0, 0, 1), 1)]]"
      "map (map_option grid) (active_sdf c3) = [Some (Some ball_grid)]"
      "static_links c3 = static_links ?c2" "static_sdf c3 = static_sdf ?c2"
      "links c3 = links ?c2" "background c3 = background ?c2" "acm c3 = acm ?c2"
      "dist_query c3 = dist_query ?c2"
    by (simp_all add: c3_def cell_arm_grid)
  have c3l: "links c3 = [''wall'', ''arm'']" by (rule trans [OF c3(6) c2(1)])
  have c3s: "static_links c3 = [''wall'']" by (rule trans [OF c3(4) c2'(1)])
  have c3f: "static_sdf c3 = [nominal_field vdb_cell cell_model ?c1 ''wall'' Identity]"
    by (rule trans [OF c3(5) c2'(2)])
  have c3q: "dist_query c3 = []" by (rule trans [OF c3(9) c2'(3)])
  have c3b: "background c3 = 10" by (rule trans [OF c3(7) c2'(4)])
  have c3a: "acm c3 = acm ?c1" by (rule trans [OF c3(8) c2'(5)])
  let ?c4 = "c3\<lparr>dynamic_links := [], dynamic_sdf := []\<rparr>"
  have dyn: "createDynamicSDFs vdb_cell cell_model c3 = Inr ?c4"
    by (rule cell_dynamic_eval [OF c3l c3s c3(1)])
  have na: "\<not> isCollisionAllowed ''wall'' ''arm'' (acm ?c4)"
    by (simp add: c3a cell_acm)
  have qu: "createDefaultDistanceQuery ?c4 = Inr (?c4\<lparr>dist_query := [cell_plan]\<rparr>)"
  proof (rule cell_query_eval)
    show "active_links ?c4 = [''arm'']" by (simp add: c3(1))
    show "active_spheres ?c4 = [[((0, 0, 0), 1), ((0, 0, 1), 1)]]" by (simp add: c3(2))
    show "dynamic_links ?c4 = []" by simp
    show "static_links ?c4 = [''wall'']" by (simp add: c3s)
    show "dist_query ?c4 = []" by (simp add: c3q)
    show "\<not> isCollisionAllowed ''wall'' ''arm'' (acm ?c4)" by (rule na)
  qed
  have ctor: "new_CollisionRobotOpenVDB 2 vdb_cell cell_model 1 10 3 3
                = Inr (?c4\<lparr>dist_query := [cell_plan]\<rparr>)"
    unfolding new_CollisionRobotOpenVDB_def Let_def
    by (simp add: st act dyn qu)
  show ?thesis
    by (rule exI [of _ "?c4\<lparr>dist_query := [cell_plan]\<rparr>"])
       (simp add: ctor c3(1,2,3) c3s c3f c3b cell_wall_grid)
qed

lemma cell_groups:
  "getJointModelGroup cell_model ''arm'' = Some [''arm'']"
  "getJointModelGroup cell_model ''hand'' = Some [''palm'']"
  by (simp_all add: getJointModelGroup_def cell_model_def)

lemma mat_vec_identity: "mat_vec (Affine3dToMat4d Identity) p = p"
  by (cases p) (simp add: mat_vec_def Affine3dToMat4d_def Identity_def)

lemma sphere_loop_cell:
  "sphere_loop 10 (unit_sdf ramp_up) [((0, 0, 0), 1), ((0, 0, 1), 1)] (10, (0, 0, 0), False)
     = (1, (0, 0, 0), True)"
  by (simp add: unit_sdf_def ramp_up_def approxEqual_def)

lemma normalize_x: "eigen_normalize (1, 0, 0) = (1, 0, 0)"
  by (simp add: eigen_normalize_def vnorm_def)

lemma cell_helper:
  "distanceSelfHelper 10
     (cell_plan\<lparr>spheres := [((0, 0, 0), 1), ((0, 0, 1), 1)], q_gradient := True\<rparr>)
     (\<lambda>t. case t of Static \<Rightarrow> [unit_sdf ramp_up] | Active \<Rightarrow> da | Dynamic \<Rightarrow> dd) cleared
   = Inr cell_distance"
  unfolding distanceSelfHelper_def blend_loop_def child_step_def Let_def
  by (simp add: cell_plan_def sphere_loop_cell blend_ramps cleared_def vzero_def vadd_def upt_rec
      finish_gradient_def normalize_x cell_distance_def del: sphere_loop.simps)

lemma singleton_map: "map f xs = [y] \<Longrightarrow> \<exists>x. xs = [x] \<and> f x = y"
  by (cases xs) auto

lemma cell_distanceSelf:
  assumes "static_links c = [''wall'']" "active_links c = [''arm'']" "dynamic_links c = []"
    "background c = 10" "dist_query c = [cell_plan]"
    "active_spheres c = [[((0, 0, 0), 1), ((0, 0, 1), 1)]]"
    "map (map_option grid) (active_sdf c) = [Some (Some ball_grid)]"
    "map grid (static_sdf c) = [Some ramp_up]"
    and g: "getJointModelGroup cell_model g = Some gl"
  shows "distanceSelf unit_mk cleared cell_model c \<lparr>group_name = g, r_gradient = True\<rparr>
           fresh_result at_identity
         = Inr \<lparr>distance = [(''arm'', cell_distance)], minimum_distance = cell_distance\<rparr>"
proof -
  from singleton_map [OF assms(7)] obtain fo where fo: "active_sdf c = [fo]"
    and fo': "map_option grid fo = Some (Some ball_grid)" by blast
  from fo' obtain fa where fa: "fo = Some fa" "grid fa = Some ball_grid" by (cases fo) auto
  from singleton_map [OF assms(8)] obtain fs where fs: "static_sdf c = [fs]" "grid fs = Some ramp_up"
    by blast
  have a: "for_indices (active_snapshot unit_mk c \<lparr>group_name = g, r_gradient = True\<rparr> at_identity)
             [0..<length (active_links c)] (dist_query c, [])
           = Inr ([cell_plan\<lparr>spheres := [((0, 0, 0), 1), ((0, 0, 1), 1)], q_gradient := True\<rparr>],
                  [unit_sdf ball_grid])"
    unfolding active_snapshot_def Let_def
    by (simp add: assms(2,5,6) fo fa at_identity_def mat_vec_identity unit_mk_def upt_rec)
  have d: "for_indices (dynamic_snapshot unit_mk c at_identity) [0..<length (dynamic_links c)] []
           = Inr []"
    by (simp add: assms(3))
  have s: "for_indices (static_snapshot unit_mk c) [0..<length (static_links c)] []
           = Inr [unit_sdf ramp_up]"
    by (simp add: assms(1) static_snapshot_def fs unit_mk_def upt_rec)
  have p: "parent_step 10 cleared
             [cell_plan\<lparr>spheres := [((0, 0, 0), 1), ((0, 0, 1), 1)], q_gradient := True\<rparr>]
             (case_LinkType [unit_sdf ramp_up] [unit_sdf ball_grid] []) fresh_result 0
           = Inr \<lparr>distance = [(''arm'', cell_distance)], minimum_distance = cleared\<rparr>"
  proof -
    have e: "q_empty (cell_plan\<lparr>spheres := [((0, 0, 0), 1), ((0, 0, 1), 1)], q_gradient := True\<rparr>)
               = False"
      by (simp add: cell_plan_def)
    have n: "link_name0 cell_distance = ''arm''" by (simp add: cell_distance_def)
    have h: "distanceSelfHelper 10
       (cell_plan\<lparr>spheres := [((0, 0, 0), 1), ((0, 0, 1), 1)], q_gradient := True\<rparr>)
       (case_LinkType [unit_sdf ramp_up] [unit_sdf ball_grid] []) cleared = Inr cell_distance"
      using cell_helper [of "[unit_sdf ball_grid]" "[]"] by simp
    show ?thesis
      by (simp add: parent_step_def e h n map_insert_def fresh_result_def)
  qed
  have m: "select_minimum 10 cleared \<lparr>distance = [(''arm'', cell_distance)], minimum_distance = cleared\<rparr>
           = Inr \<lparr>distance = [(''arm'', cell_distance)], minimum_distance = cell_distance\<rparr>"
  proof -
    have n: "link_name0 cell_distance = ''arm''" "min_distance cell_distance = 1"
      by (simp_all add: cell_distance_def)
    show ?thesis
      by (simp add: select_minimum_def n map_index_def)
  qed
  show ?thesis
    unfolding distanceSelf_def
    by (simp add: g a d s p m assms(4))
qed

subsection \<open>The joint group of the request\<close>

lemma active_snapshot_group:
  "active_snapshot mk c (req\<lparr>group_name := g\<rparr>) state = active_snapshot mk c req state"
proof (intro ext)
  fix st i
  have eq: "r_gradient (req\<lparr>group_name := g\<rparr>) = r_gradient req" by simp
  show "active_snapshot mk c (req\<lparr>group_name := g\<rparr>) state st i =
        active_snapshot mk c req state st i"
    unfolding active_snapshot_def eq by (rule refl)
qed

text \<open>
  C10. Two requests that differ only in their group name, both naming groups of the
  model, get the same result: the group is looked up and nothing else is done with it.
\<close>

theorem distanceSelf_ignores_group:
  assumes "getJointModelGroup m (group_name req) \<noteq> None" and "getJointModelGroup m g \<noteq> None"
  shows "distanceSelf mk d0 m c (req\<lparr>group_name := g\<rparr>) res state =
         distanceSelf mk d0 m c req res state"
  using assms by (auto simp: distanceSelf_def active_snapshot_group)

theorem distanceSelf_ignores_group_witness:
  "getJointModelGroup cell_model (group_name \<lparr>group_name = ''arm'', r_gradient = True\<rparr>) \<noteq> None \<and>
   getJointModelGroup cell_model ''hand'' \<noteq> None \<and>
   (case new_CollisionRobotOpenVDB 2 vdb_cell cell_model 1 10 3 3 of
      Inl e \<Rightarrow> False
    | Inr c \<Rightarrow>
        distanceSelf unit_mk cleared cell_model c
          (\<lparr>group_name = ''arm'', r_gradient = True\<rparr>\<lparr>group_name := ''hand''\<rparr>)
          fresh_result at_identity
        = distanceSelf unit_mk cleared cell_model c \<lparr>group_name = ''arm'', r_gradient = True\<rparr>
            fresh_result at_identity \<and>
        distanceSelf unit_mk cleared cell_model c \<lparr>group_name = ''arm'', r_gradient = True\<rparr>
            fresh_result at_identity
        = Inr \<lparr>distance = [(''arm'', cell_distance)], minimum_distance = cell_distance\<rparr>)"
proof -
  have h1: "getJointModelGroup cell_model (group_name \<lparr>group_name = ''arm'', r_gradient = True\<rparr>)
              \<noteq> None"
    by (simp add: cell_groups)
  have h2: "getJointModelGroup cell_model ''hand'' \<noteq> None"
    by (simp add: cell_groups)
  from cell_ctor obtain c where
    ctor: "new_CollisionRobotOpenVDB 2 vdb_cell cell_model 1 10 3 3 = Inr c"
    and c: "static_links c = [''wall'']" "active_links c = [''arm'']" "dynamic_links c = []"
      "background c = 10" "dist_query c = [cell_plan]"
      "active_spheres c = [[((0, 0, 0), 1), ((0, 0, 1), 1)]]"
      "map (map_option grid) (active_sdf c) = [Some (Some ball_grid)]"
      "map grid (static_sdf c) = [Some ramp_up]"
    by (elim exE conjE)
  note same = distanceSelf_ignores_group [OF h1 h2, of unit_mk cleared c fresh_result at_identity]
  note val = cell_distanceSelf [OF c cell_groups(1)]
  show ?thesis
    by (intro conjI h1 h2) (simp only: ctor sum.case same val simp_thms)
qed

lemma unknown_group:
  "getJointModelGroup m (group_name req) = None \<Longrightarrow>
   distanceSelf mk d0 m c req res state = Inl NullGroupDereference"
  by (simp add: distanceSelf_def)

text \<open>
  C6 at a request for the group \<open>gripper\<close>, which \<open>arm_model\<close> does not have. There is no
  check and no rejection path: the null group pointer is dereferenced for its link
  names, for every engine, result object and state.
\<close>

theorem unknown_group_is_dereferenced:
  "getJointModelGroup arm_model ''gripper'' = None \<and>
   distanceSelf mk d0 arm_model c \<lparr>group_name = ''gripper'', r_gradient = gr\<rparr> res state
     = Inl NullGroupDereference"
  by (simp add: distanceSelf_def getJointModelGroup_def arm_model_def)

subsection \<open>Engines without a plan to run\<close>

lemma for_indices_unchanged:
  assumes "\<And>i. i \<in> set idx \<Longrightarrow> body s i = Inr s"
  shows "for_indices body idx s = Inr s"
  using assms by (induction idx) auto

lemma all_plans_empty_fail:
  assumes "distance res = []" and "\<forall>q \<in> set (dist_query c). q_empty q"
  shows "\<exists>e. distanceSelf mk d0 m c req res state = Inl e"
proof (cases "distanceSelf mk d0 m c req res state")
  case (Inl e)
  then show ?thesis by blast
next
  case (Inr r)
  then obtain dq da dd ds res' where
    a: "for_indices (active_snapshot mk c req state) [0..<length (active_links c)] (dist_query c, []) = Inr (dq, da)"
    and p: "for_indices (parent_step (background c) d0 dq
                (\<lambda>t. case t of Static \<Rightarrow> ds | Active \<Rightarrow> da | Dynamic \<Rightarrow> dd))
             [0..<length dq] res = Inr res'"
    and s: "select_minimum (background c) d0 res' = Inr r"
    by (auto simp: distanceSelf_def split: option.splits sum.splits prod.splits)
  have step: "\<And>s i s'. active_snapshot mk c req state s i = Inr s' \<Longrightarrow>
     (\<forall>q \<in> set (fst s). q_empty q) \<Longrightarrow> (\<forall>q \<in> set (fst s'). q_empty q)"
  proof -
    fix s i s'
    assume run: "active_snapshot mk c req state s i = Inr s'" and inv: "\<forall>q \<in> set (fst s). q_empty q"
    obtain dq0 da0 where s: "s = (dq0, da0)" by (cases s) auto
    let ?q = "(dq0 ! i)\<lparr>spheres := map (\<lambda>p. (mat_vec (Affine3dToMat4d (state (active_links c ! i))) (fst p), snd p))
                                      (active_spheres c ! i),
                          q_gradient := r_gradient req\<rparr>"
    from run s have i: "i < length dq0" and s': "fst s' = dq0[i := ?q]"
      by (auto simp: active_snapshot_def Let_def split: if_splits option.splits)
    from i inv s have "q_empty ?q" by simp
    with inv s s' show "\<forall>q \<in> set (fst s'). q_empty q"
      by (auto dest!: subsetD [OF set_update_subset_insert])
  qed
  from for_indices_inv [where P = "\<lambda>s. \<forall>q \<in> set (fst s). q_empty q", OF step a] assms(2)
  have dq: "\<forall>q \<in> set dq. q_empty q" by simp
  have "for_indices (parent_step (background c) d0 dq
                (\<lambda>t. case t of Static \<Rightarrow> ds | Active \<Rightarrow> da | Dynamic \<Rightarrow> dd))
             [0..<length dq] res = Inr res"
    by (rule for_indices_unchanged) (use dq in \<open>simp add: parent_step_def\<close>)
  with p have "res' = res" by simp
  with s assms(1) show ?thesis by (simp add: select_minimum_def)
qed

lemma passive_static_eval:
  assumes "links c = [''base'', ''door'']"
  shows "createStaticSDFs 2 vdb passive_model c = Inr (push_static vdb passive_model c ''base'' Identity)"
proof -
  have n: "(2::nat) = Suc (Suc 0)" by simp
  have att: "getAssociatedFixedTransforms passive_model ''world'' = [(''base'', Identity)]"
    "getAssociatedFixedTransforms passive_model ''base'' = [(''world'', Identity)]"
    "getRootLink passive_model = ''world''"
    by (simp_all add: passive_model_def)
  show ?thesis
    unfolding n createStaticSDFs_def addAssociatedFixedTransforms_def
    by (simp add: att assms Let_def)
qed

lemma no_active_eval:
  assumes "collect_active_links (links c) (getJointModelGroups m) (active_links c) = []"
  shows "createActiveSDFs vdb m c =
           Inr (c\<lparr>active_links := [], active_sdf := [], active_spheres := []\<rparr>)"
  by (simp add: createActiveSDFs_def assms resize_def)

lemma passive_dynamic_eval:
  assumes "links c = [''base'', ''door'']" "static_links c = [''base'']" "active_links c = []"
  shows "createDynamicSDFs vdb m c =
           Inr (c\<lparr>dynamic_links := [''door''],
                  dynamic_sdf := [nominal_field vdb m c ''door'' Identity]\<rparr>)"
  by (simp add: createDynamicSDFs_def assms erase_remove_def)

lemma no_active_query: "active_links c = [] \<Longrightarrow> createDefaultDistanceQuery c = Inr c"
  by (simp add: createDefaultDistanceQuery_def)

lemma passive_field_grid:
  "l = ''base'' \<or> l = ''door'' \<Longrightarrow>
   grid (nominal_field vdb_one_sphere passive_model c l pose) = Some (\<lambda>ijk. 0)"
  by (auto simp: nominal_field_def addLinkToField_def passive_model_def addShapeToField_def
      new_field_def vdb_one_sphere_def Let_def)

lemma passive_ctor:
  "\<exists>c. new_CollisionRobotOpenVDB 2 vdb_one_sphere passive_model 1 10 3 3 = Inr c \<and>
       active_links c = [] \<and> dist_query c = [] \<and>
       static_links c = [''base''] \<and> dynamic_links c = [''door''] \<and>
       map grid (static_sdf c) = [Some (\<lambda>ijk. 0)] \<and>
       map grid (dynamic_sdf c) = [Some (\<lambda>ijk. 0)]"
proof -
  let ?c0 = "initial_engine passive_model 1 10 3 3"
  let ?c1 = "createDefaultAllowedCollisionMatrix passive_model ?c0"
  let ?c2 = "push_static vdb_one_sphere passive_model ?c1 ''base'' Identity"
  let ?c3 = "?c2\<lparr>active_links := [], active_sdf := [], active_spheres := []\<rparr>"
  let ?c4 = "?c3\<lparr>dynamic_links := [''door''],
                  dynamic_sdf := [nominal_field vdb_one_sphere passive_model ?c3 ''door'' Identity]\<rparr>"
  have lm: "getLinkModelsWithCollisionGeometry passive_model = [''base'', ''door'']"
    and grp: "getJointModelGroups passive_model = [(''arm'', [''elbow''])]"
    by (simp_all add: passive_model_def)
  have l1: "links ?c1 = [''base'', ''door'']"
    by (simp add: acm_frame initial_engine_sel lm)
  have st: "createStaticSDFs 2 vdb_one_sphere passive_model ?c1 = Inr ?c2"
    by (rule passive_static_eval [OF l1])
  have c2: "links ?c2 = [''base'', ''door'']" "active_links ?c2 = []"
    "static_links ?c2 = [''base'']" "dist_query ?c2 = []"
    "static_sdf ?c2 = [nominal_field vdb_one_sphere passive_model ?c1 ''base'' Identity]"
    by (simp_all add: push_static_frame push_static_frame2 acm_frame acm_frame2
        initial_engine_sel lm)
  have col: "collect_active_links (links ?c2) (getJointModelGroups passive_model) (active_links ?c2) = []"
    by (simp add: c2 l1 grp collect_active_links_def)
  have act: "createActiveSDFs vdb_one_sphere passive_model ?c2 = Inr ?c3"
    by (rule no_active_eval [OF col])
  have dyn: "createDynamicSDFs vdb_one_sphere passive_model ?c3 = Inr ?c4"
    by (rule passive_dynamic_eval) (simp_all add: c2 l1)
  have qu: "createDefaultDistanceQuery ?c4 = Inr ?c4"
    by (rule no_active_query) simp
  have ctor: "new_CollisionRobotOpenVDB 2 vdb_one_sphere passive_model 1 10 3 3 = Inr ?c4"
    unfolding new_CollisionRobotOpenVDB_def Let_def
    by (simp add: st act dyn qu)
  show ?thesis
    by (rule exI [of _ ?c4]) (simp add: ctor c2 passive_field_grid)
qed

lemma passive_distanceSelf:
  assumes "active_links c = []" "dist_query c = []" "static_links c = [''base'']"
    "dynamic_links c = [''door'']" "map grid (static_sdf c) = [Some gs]"
    "map grid (dynamic_sdf c) = [Some gd]"
  shows "distanceSelf mk d0 passive_model c \<lparr>group_name = ''arm'', r_gradient = gr\<rparr>
           \<lparr>distance = [], minimum_distance = r0\<rparr> state = Inl EndIteratorDereference"
proof -
  have g: "getJointModelGroup passive_model ''arm'' = Some [''elbow'']"
    by (simp add: getJointModelGroup_def passive_model_def)
  from singleton_map [OF assms(5)] obtain fs where fs: "static_sdf c = [fs]" "grid fs = Some gs"
    by blast
  from singleton_map [OF assms(6)] obtain fd where fd: "dynamic_sdf c = [fd]" "grid fd = Some gd"
    by blast
  show ?thesis
    unfolding distanceSelf_def
    by (simp add: g assms(1-4) fs fd dynamic_snapshot_def static_snapshot_def select_minimum_def
        upt_rec)
qed

text \<open>
  C7 at the engine built for \<open>passive_model\<close>, which has no active part and so no query
  plan. The parent loop inserts nothing into the empty result map, and the closing block
  reads \<^verbatim>\<open>res.distance.begin()->second\<close> of that empty map: the query does not run to
  completion.
\<close>

theorem no_active_parts_reads_empty_result:
  "(case new_CollisionRobotOpenVDB 2 vdb_one_sphere passive_model 1 10 3 3 of
      Inl e \<Rightarrow> False
    | Inr c \<Rightarrow>
        active_links c = [] \<and> dist_query c = [] \<and>
        distanceSelf unit_mk cleared passive_model c \<lparr>group_name = ''arm'', r_gradient = False\<rparr>
          fresh_result at_identity = Inl EndIteratorDereference)"
proof -
  from passive_ctor obtain c where
    ctor: "new_CollisionRobotOpenVDB 2 vdb_one_sphere passive_model 1 10 3 3 = Inr c"
    and c: "active_links c = []" "dist_query c = []" "static_links c = [''base'']"
      "dynamic_links c = [''door'']" "map grid (static_sdf c) = [Some (\<lambda>ijk. 0)]"
      "map grid (dynamic_sdf c) = [Some (\<lambda>ijk. 0)]"
    by (elim exE conjE)
  note run = passive_distanceSelf [OF c, of unit_mk cleared False cleared at_identity,
      folded fresh_result_def]
  show ?thesis
    by (simp only: ctor sum.case c(1,2) run simp_thms)
qed
end
